theory Spec2Isabelle
  imports Complex_Main "HOL-Library.Sublist"
begin

section \<open>Python strings\<close>

text \<open>
  A Python \<open>str\<close> is modelled as a \<open>string\<close>, each \<open>char\<close> standing for the code point
  of the same number (0 to 255, the Latin-1 range of Unicode). The string methods below
  are those of \<open>str\<close> restricted to that range.
\<close>

definition ord :: "char \<Rightarrow> nat" where
  "ord c = of_char c"

definition between :: "nat \<Rightarrow> nat \<Rightarrow> nat \<Rightarrow> bool" where
  "between lo hi n = (lo \<le> n \<and> n \<le> hi)"

text \<open>\<open>str.lower()\<close>: A-Z and the accented capitals U+00C0..U+00DE (not the
  multiplication sign U+00D7) move up by 32.\<close>

definition lower_char :: "char \<Rightarrow> char" where
  "lower_char c =
     (let n = ord c
      in if between 65 90 n \<or> (between 192 222 n \<and> n \<noteq> 215) then char_of (n + 32) else c)"

definition str_lower :: "string \<Rightarrow> string" where
  "str_lower s = map lower_char s"

text \<open>Upper-casing inside the range: a-z and U+00E0..U+00FE (not the division sign
  U+00F7) move down by 32. The capitals of U+00B5, U+00DF and U+00FF lie outside the range.\<close>

definition upper_char :: "char \<Rightarrow> char" where
  "upper_char c =
     (let n = ord c
      in if between 97 122 n \<or> (between 224 254 n \<and> n \<noteq> 247) then char_of (n - 32) else c)"

text \<open>\<open>str.isspace()\<close> on one character, which is also the class \<open>\s\<close> of \<open>re\<close> on
  \<open>str\<close> patterns: tab to carriage return, the separators U+001C..U+001F, space,
  U+0085 and U+00A0.\<close>

definition isspace :: "char \<Rightarrow> bool" where
  "isspace c = (let n = ord c in between 9 13 n \<or> between 28 32 n \<or> n = 133 \<or> n = 160)"

definition lstrip :: "string \<Rightarrow> string" where
  "lstrip s = dropWhile isspace s"

definition rstrip :: "string \<Rightarrow> string" where
  "rstrip s = rev (dropWhile isspace (rev s))"

definition strip :: "string \<Rightarrow> string" where
  "strip s = rstrip (lstrip s)"

text \<open>\<open>service_url.rstrip('/')\<close>.\<close>

definition rstrip_slash :: "string \<Rightarrow> string" where
  "rstrip_slash s = rev (dropWhile (\<lambda>c. c = CHR ''/'') (rev s))"

text \<open>\<open>s.startswith(p)\<close> and the operator \<open>sub in s\<close>.\<close>

fun startswith :: "string \<Rightarrow> string \<Rightarrow> bool" where
  "startswith s [] = True"
| "startswith [] (p # ps) = False"
| "startswith (c # cs) (p # ps) = (c = p \<and> startswith cs ps)"

fun str_in :: "string \<Rightarrow> string \<Rightarrow> bool" where
  "str_in sub [] = (sub = [])"
| "str_in sub (c # cs) = (startswith (c # cs) sub \<or> str_in sub cs)"

text \<open>\<open>any(keyword in text for keyword in keywords)\<close>.\<close>

definition any_keyword :: "string list \<Rightarrow> string \<Rightarrow> bool" where
  "any_keyword keywords text = list_ex (\<lambda>keyword. str_in keyword text) keywords"

text \<open>\<open>str.title()\<close> on ASCII text: a letter after a non-letter is capitalised, a letter
  after a letter is lowered.\<close>

definition ascii_letter :: "char \<Rightarrow> bool" where
  "ascii_letter c = (between 65 90 (ord c) \<or> between 97 122 (ord c))"

fun title_from :: "bool \<Rightarrow> string \<Rightarrow> string" where
  "title_from prev [] = []"
| "title_from prev (c # cs) =
     (if ascii_letter c
      then (if prev then lower_char c else upper_char c) # title_from True cs
      else c # title_from False cs)"

definition title :: "string \<Rightarrow> string" where
  "title s = title_from False s"

section \<open>The regular expressions of module \<open>re\<close>\<close>

text \<open>
  The patterns of the source use literals, character sets, \<open>+\<close>, \<open>+?\<close>, \<open>*\<close> and \<open>?\<close>
  on single characters, alternation, one capturing group, \<open>^\<close> and \<open>$\<close>. A set is a list
  of items, possibly negated.
\<close>

datatype citem = Ch char | Rng char char | Space

datatype cset = Pos "citem list" | Neg "citem list"

fun item_has :: "citem \<Rightarrow> char \<Rightarrow> bool" where
  "item_has (Ch a) c = (c = a)"
| "item_has (Rng a b) c = between (ord a) (ord b) (ord c)"
| "item_has Space c = isspace c"

text \<open>With \<open>re.IGNORECASE\<close> a character is in a set when it or its other case is.\<close>

definition items_have :: "bool \<Rightarrow> citem list \<Rightarrow> char \<Rightarrow> bool" where
  "items_have ic its c =
     list_ex (\<lambda>it. item_has it c \<or> (ic \<and> (item_has it (lower_char c) \<or> item_has it (upper_char c)))) its"

fun in_cset :: "bool \<Rightarrow> cset \<Rightarrow> char \<Rightarrow> bool" where
  "in_cset ic (Pos its) c = items_have ic its c"
| "in_cset ic (Neg its) c = (\<not> items_have ic its c)"

text \<open>
  \<open>Rep cs m greedy\<close> is \<open>cs\<close> repeated at least \<open>m\<close> times: \<open>cs+\<close> is \<open>Rep cs 1 True\<close>,
  \<open>cs+?\<close> is \<open>Rep cs 1 False\<close>, \<open>cs*\<close> is \<open>Rep cs 0 True\<close>. \<open>Lit []\<close> matches the empty
  string, so \<open>x?\<close> is \<open>Alt x (Lit [])\<close>. \<open>Grp\<close> is the capturing group 1.
\<close>

datatype rx =
    Lit string
  | Cls cset
  | Rep cset nat bool
  | Cat rx rx
  | Alt rx rx
  | Grp rx
  | Bol
  | Eol

text \<open>A matcher state: the number of characters before the current position, the text
  from the current position on, and the text of group 1 if it has matched.\<close>

type_synonym mstate = "nat \<times> string \<times> string option"

definition lit_matches :: "bool \<Rightarrow> string \<Rightarrow> string \<Rightarrow> bool" where
  "lit_matches ic l s =
     (if ic then startswith (str_lower s) (str_lower l) else startswith s l)"

text \<open>
  The backtracking matcher: all the ways the pattern matches at the current position, in
  the order in which the engine of \<open>re\<close> tries them (left alternative first, greedy
  repetition longest first, lazy repetition shortest first). The first is the match.
  \<open>$\<close> (without \<open>re.MULTILINE\<close>) matches at the end and before a final newline.
\<close>

fun rmatch :: "bool \<Rightarrow> rx \<Rightarrow> mstate \<Rightarrow> mstate list" where
  "rmatch ic (Lit l) (n, s, g) =
     (if lit_matches ic l s then [(n + length l, drop (length l) s, g)] else [])"
| "rmatch ic (Cls cs) (n, s, g) =
     (case s of [] \<Rightarrow> [] | c # rest \<Rightarrow> if in_cset ic cs c then [(Suc n, rest, g)] else [])"
| "rmatch ic (Rep cs m greedy) (n, s, g) =
     (let k = length (takeWhile (in_cset ic cs) s);
          counts = (if greedy then rev [m..<Suc k] else [m..<Suc k])
      in map (\<lambda>j. (n + j, drop j s, g)) counts)"
| "rmatch ic (Cat a b) st = concat (map (rmatch ic b) (rmatch ic a st))"
| "rmatch ic (Alt a b) st = rmatch ic a st @ rmatch ic b st"
| "rmatch ic (Grp r) (n, s, g) =
     map (\<lambda>(n', s', g'). (n', s', Some (take (n' - n) s))) (rmatch ic r (n, s, g))"
| "rmatch ic Bol (n, s, g) = (if n = 0 then [(n, s, g)] else [])"
| "rmatch ic Eol (n, s, g) = (if s = [] \<or> s = [CHR 0x0A] then [(n, s, g)] else [])"

text \<open>A match: where it starts, and the matcher state at its end.\<close>

type_synonym rmatch_result = "nat \<times> mstate"

text \<open>\<open>re.search\<close>: the match at the leftmost position that has one.\<close>

fun search_from :: "bool \<Rightarrow> rx \<Rightarrow> nat \<Rightarrow> string \<Rightarrow> rmatch_result option" where
  "search_from ic r n [] =
     (case rmatch ic r (n, [], None) of [] \<Rightarrow> None | m # ms \<Rightarrow> Some (n, m))"
| "search_from ic r n (c # cs) =
     (case rmatch ic r (n, c # cs, None) of
        [] \<Rightarrow> search_from ic r (Suc n) cs
      | m # ms \<Rightarrow> Some (n, m))"

definition re_search :: "bool \<Rightarrow> rx \<Rightarrow> string \<Rightarrow> rmatch_result option" where
  "re_search ic r text = search_from ic r 0 text"

text \<open>\<open>match.group(1)\<close>. Every pattern of the source that is asked for its group 1 has
  the group on each of its paths (lemma \<open>rmatch_sets_group\<close> below), so the case of an
  unset group does not arise.\<close>

fun group1 :: "rmatch_result \<Rightarrow> string" where
  "group1 (start, n, s, g) = (case g of None \<Rightarrow> [] | Some x \<Rightarrow> x)"

text \<open>
  \<open>re.findall\<close> for a pattern with one group (the list of the group's texts) and
  \<open>re.split\<close> for a pattern without groups (the pieces between the matches): successive
  searches, each from the end of the match before. The patterns they are used with match
  no empty string; a match that consumes nothing ends the scan here.
\<close>

function findall_from :: "bool \<Rightarrow> rx \<Rightarrow> nat \<Rightarrow> string \<Rightarrow> string list" where
  "findall_from ic r n s =
     (case search_from ic r n s of
        None \<Rightarrow> []
      | Some (start, n', s', g) \<Rightarrow>
          group1 (start, n', s', g) #
            (if length s' < length s then findall_from ic r n' s' else []))"
  by pat_completeness auto
termination
  by (relation "measure (\<lambda>(ic, r, n, s). length s)") auto

definition re_findall :: "bool \<Rightarrow> rx \<Rightarrow> string \<Rightarrow> string list" where
  "re_findall ic r text = findall_from ic r 0 text"

function split_from :: "bool \<Rightarrow> rx \<Rightarrow> nat \<Rightarrow> string \<Rightarrow> string list" where
  "split_from ic r n s =
     (case search_from ic r n s of
        None \<Rightarrow> [s]
      | Some (start, n', s', g) \<Rightarrow>
          (if length s' < length s then take (start - n) s # split_from ic r n' s' else [s]))"
  by pat_completeness auto
termination
  by (relation "measure (\<lambda>(ic, r, n, s). length s)") auto

definition re_split :: "bool \<Rightarrow> rx \<Rightarrow> string \<Rightarrow> string list" where
  "re_split ic r text = split_from ic r 0 text"

definition seq :: "rx list \<Rightarrow> rx" where
  "seq rs = foldr Cat rs (Lit [])"

definition alts :: "rx list \<Rightarrow> rx" where
  "alts rs = foldr Alt (butlast rs) (last rs)"

definition spaces1 :: rx where
  "spaces1 = Rep (Pos [Space]) 1 True"

definition spaces0 :: rx where
  "spaces0 = Rep (Pos [Space]) 0 True"

section \<open>Entity extraction\<close>

text \<open>The group \<open>([A-Z][A-Za-z0-9\s&]+?)\<close> of the four company patterns.\<close>

definition company_group :: rx where
  "company_group =
     Grp (Cat (Cls (Pos [Rng CHR ''A'' CHR ''Z'']))
              (Rep (Pos [Rng CHR ''A'' CHR ''Z'', Rng CHR ''a'' CHR ''z'', Rng CHR ''0'' CHR ''9'',
                         Space, Ch CHR ''&'']) 1 False))"

definition company_patterns :: "rx list" where
  "company_patterns =
     [seq [Lit ''analyze'', spaces1, company_group,
           alts [Cat spaces1 (Lit ''using''), Cat spaces1 (Lit ''with''), Lit ''.'', Lit '','', Eol]],
      seq [alts [Lit ''SWOT'', Lit ''analysis'', Lit ''evaluate''], spaces1,
           alts [Lit ''for'', Lit ''of''], spaces1, company_group,
           alts [Cat spaces1 (Lit ''using''), Lit ''.'', Lit '','', Eol]],
      seq [Lit ''company'', spaces1, company_group,
           alts [Cat spaces1 (Lit ''in''), Lit ''.'', Lit '','', Eol]],
      seq [Bol, spaces0, company_group, spaces1,
           alts [Lit ''SWOT'', Lit ''analysis'', Lit ''strategy'']]]"

text \<open>The pattern \<open>"([^"]+)"\<close>; the double quote is the character 0x22.\<close>

definition quoted_pattern :: rx where
  "quoted_pattern =
     seq [Lit [CHR 0x22], Grp (Rep (Neg [Ch (CHR 0x22)]) 1 True), Lit [CHR 0x22]]"

text \<open>The loop \<open>for pattern in patterns\<close> with \<open>re.search(pattern, text, re.IGNORECASE)\<close>,
  returning the stripped group 1 of the first pattern that matches.\<close>

fun first_pattern_match :: "rx list \<Rightarrow> string \<Rightarrow> string option" where
  "first_pattern_match [] text = None"
| "first_pattern_match (pattern # patterns) text =
     (case re_search True pattern text of
        Some m \<Rightarrow> Some (strip (group1 m))
      | None \<Rightarrow> first_pattern_match patterns text)"

definition extract_company_name :: "string \<Rightarrow> string option" where
  "extract_company_name text =
     (case first_pattern_match company_patterns text of
        Some name \<Rightarrow> Some name
      | None \<Rightarrow>
          (case re_findall False quoted_pattern text of
             [] \<Rightarrow> None
           | q # qs \<Rightarrow> Some q))"

definition extract_depth :: "string \<Rightarrow> string" where
  "extract_depth text =
     (let text_lower = str_lower text
      in if str_in ''comprehensive'' text_lower \<or> str_in ''detailed'' text_lower
            \<or> str_in ''thorough'' text_lower
         then ''comprehensive''
         else if str_in ''quick'' text_lower \<or> str_in ''brief'' text_lower
                 \<or> str_in ''summary'' text_lower
         then ''quick''
         else ''standard'')"

definition not_comma_newline :: cset where
  "not_comma_newline = Neg [Ch CHR '','', Ch (CHR 0x0A)]"

definition industry_patterns :: "rx list" where
  "industry_patterns =
     [seq [alts [Lit ''industry'', Lit ''sector''], Lit '':'', spaces0,
           Grp (Rep not_comma_newline 1 True)],
      seq [Lit ''in'', spaces1, Lit ''the'', spaces1, Grp (Rep not_comma_newline 1 False), spaces1,
           alts [Lit ''industry'', Lit ''sector'', Lit ''market'']],
      seq [Grp (Rep not_comma_newline 1 False), spaces1, Lit ''market'', spaces1, Lit ''entry'']]"

definition extract_industry :: "string \<Rightarrow> string" where
  "extract_industry text =
     (case first_pattern_match industry_patterns text of
        Some industry \<Rightarrow> industry
      | None \<Rightarrow> ''technology'')"

definition regions :: "string list" where
  "regions = [''europe'', ''asia'', ''north america'', ''south america'', ''africa'',
              ''middle east'', ''global'']"

fun first_region :: "string list \<Rightarrow> string \<Rightarrow> string option" where
  "first_region [] text_lower = None"
| "first_region (region # rest) text_lower =
     (if str_in region text_lower then Some (title region) else first_region rest text_lower)"

definition extract_region :: "string \<Rightarrow> string" where
  "extract_region text =
     (case first_region regions (str_lower text) of
        Some region \<Rightarrow> region
      | None \<Rightarrow> ''Global'')"

definition not_dot :: cset where
  "not_dot = Neg [Ch CHR ''.'']"

definition competitor_patterns :: "rx list" where
  "competitor_patterns =
     [seq [alts [Lit ''versus'', Cat (Lit ''vs'') (Alt (Lit ''.'') (Lit [])), Lit ''against''],
           spaces1, Grp (Rep not_dot 1 True)],
      seq [Lit ''competitor'', Alt (Lit ''s'') (Lit []), Lit '':'', spaces0,
           Grp (Rep not_dot 1 True)],
      seq [Lit ''compete'', spaces1, Lit ''with'', spaces1, Grp (Rep not_dot 1 True)]]"

text \<open>The delimiters \<open>[,;]|\sand\s\<close> of \<open>re.split\<close>, matched with no flag.\<close>

definition delimiter_pattern :: rx where
  "delimiter_pattern =
     Alt (Cls (Pos [Ch CHR '','', Ch CHR '';'']))
         (seq [Cls (Pos [Space]), Lit ''and'', Cls (Pos [Space])])"

fun first_competitors :: "rx list \<Rightarrow> string \<Rightarrow> string list" where
  "first_competitors [] text = []"
| "first_competitors (pattern # patterns) text =
     (case re_search True pattern text of
        Some m \<Rightarrow>
          (let competitors_text = group1 m;
               competitors = re_split False delimiter_pattern competitors_text
           in map strip (filter (\<lambda>c. strip c \<noteq> []) competitors))
      | None \<Rightarrow> first_competitors patterns text)"

definition extract_competitors :: "string \<Rightarrow> string list" where
  "extract_competitors text = first_competitors competitor_patterns text"

section \<open>The task classifier\<close>

text \<open>
  The values of the program: None, booleans, numbers, strings, lists and dicts, which
  are also the values a decoded JSON document is made of. A dict is the list of its items
  in insertion order, with distinct keys.
\<close>

datatype pyval =
    PNone
  | PBool bool
  | PInt int
  | PFloat real
  | PStr string
  | PList "pyval list"
  | PDict "(string \<times> pyval) list"

type_synonym dict = "(string \<times> pyval) list"

text \<open>\<open>d.get(key)\<close>, \<open>d.get(key, default)\<close> and \<open>key in d\<close>.\<close>

definition dict_get_default :: "dict \<Rightarrow> string \<Rightarrow> pyval \<Rightarrow> pyval" where
  "dict_get_default d key dflt = (case map_of d key of None \<Rightarrow> dflt | Some v \<Rightarrow> v)"

definition dict_get :: "dict \<Rightarrow> string \<Rightarrow> pyval" where
  "dict_get d key = dict_get_default d key PNone"

definition has_key :: "dict \<Rightarrow> string \<Rightarrow> bool" where
  "has_key d key = (map_of d key \<noteq> None)"

text \<open>The truth value of a value in \<open>if v:\<close>.\<close>

fun truthy :: "pyval \<Rightarrow> bool" where
  "truthy PNone = False"
| "truthy (PBool b) = b"
| "truthy (PInt i) = (i \<noteq> 0)"
| "truthy (PFloat x) = (x \<noteq> 0)"
| "truthy (PStr s) = (s \<noteq> [])"
| "truthy (PList xs) = (xs \<noteq> [])"
| "truthy (PDict kvs) = (kvs \<noteq> [])"

text \<open>A task is a dict from field names to values.\<close>

type_synonym task = dict

definition opt_val :: "string option \<Rightarrow> pyval" where
  "opt_val x = (case x of None \<Rightarrow> PNone | Some s \<Rightarrow> PStr s)"

text \<open>The truth value of the result of \<open>_extract_company_name\<close>, None or a string.\<close>

definition truthy_name :: "string option \<Rightarrow> bool" where
  "truthy_name x = truthy (opt_val x)"

definition swot_keywords :: "string list" where
  "swot_keywords = [''swot'', ''strengths'', ''weaknesses'', ''opportunities'', ''threats'']"

definition five_forces_keywords :: "string list" where
  "five_forces_keywords = [''porter'', ''five forces'', ''competitive forces'', ''industry analysis'']"

definition market_entry_keywords :: "string list" where
  "market_entry_keywords = [''market entry'', ''enter market'', ''expand into'', ''market expansion'']"

definition competitive_keywords :: "string list" where
  "competitive_keywords =
     [''competitive analysis'', ''competitor analysis'', ''competition'', ''versus'', ''vs'']"

text \<open>The five conditions of the \<open>if\<close>/\<open>elif\<close> chain and the task each branch builds.\<close>

definition swot_rule :: "string \<Rightarrow> bool" where
  "swot_rule text = any_keyword swot_keywords (str_lower text)"

definition five_forces_rule :: "string \<Rightarrow> bool" where
  "five_forces_rule text = any_keyword five_forces_keywords (str_lower text)"

definition market_entry_rule :: "string \<Rightarrow> bool" where
  "market_entry_rule text = any_keyword market_entry_keywords (str_lower text)"

definition competitive_rule :: "string \<Rightarrow> bool" where
  "competitive_rule text = any_keyword competitive_keywords (str_lower text)"

definition analyze_rule :: "string \<Rightarrow> bool" where
  "analyze_rule text =
     (str_in ''analyze'' (str_lower text) \<and> truthy_name (extract_company_name text))"

definition company_task :: "string \<Rightarrow> string option \<Rightarrow> string \<Rightarrow> string \<Rightarrow> task" where
  "company_task ty company framework text =
     [(''type'', PStr ty), (''company'', opt_val company), (''framework'', PStr framework),
      (''depth'', PStr (extract_depth text))]"

definition swot_branch :: "string \<Rightarrow> task option" where
  "swot_branch text =
     (let company = extract_company_name text
      in if truthy_name company then Some (company_task ''swot'' company ''swot'' text)
         else None)"

definition five_forces_branch :: "string \<Rightarrow> task option" where
  "five_forces_branch text =
     (let company = extract_company_name text
      in if truthy_name company
         then Some (company_task ''analyze'' company ''porters-five-forces'' text)
         else None)"

definition market_entry_branch :: "string \<Rightarrow> task option" where
  "market_entry_branch text =
     Some [(''type'', PStr ''market_entry''), (''industry'', PStr (extract_industry text)),
           (''region'', PStr (extract_region text)),
           (''company'', opt_val (extract_company_name text))]"

definition competitive_branch :: "string \<Rightarrow> task option" where
  "competitive_branch text =
     Some [(''type'', PStr ''competitive''), (''company'', opt_val (extract_company_name text)),
           (''competitors'', PList (map PStr (extract_competitors text)))]"

definition analyze_branch :: "string \<Rightarrow> task option" where
  "analyze_branch text =
     (let company = extract_company_name text
      in Some (company_task ''analyze'' company ''swot'' text))"

definition classify :: "string \<Rightarrow> task option" where
  "classify text =
     (if swot_rule text then swot_branch text
      else if five_forces_rule text then five_forces_branch text
      else if market_entry_rule text then market_entry_branch text
      else if competitive_rule text then competitive_branch text
      else if analyze_rule text then analyze_branch text
      else None)"

text \<open>
  The exceptions raised on a value of an unexpected shape: a method a value does not have
  (\<open>lower\<close>, \<open>get\<close>, \<open>upper\<close>), a value that cannot be sliced. Slicing a dict is counted as
  a \<open>TypeError\<close>.
\<close>

datatype error = TypeError | AttributeError

text \<open>
  The argument of \<open>_parse_message_for_task\<close> is a string or a list of messages. Of a
  list the last element counts: a dict gives the value of its \<open>content\<close>, whatever it is
  (the empty string when the key is absent), anything else its \<open>str()\<close>; the empty list
  gives the empty string. \<open>text.lower()\<close> then raises \<open>AttributeError\<close> when the content
  is no string.
\<close>

datatype message = DictMessage "pyval option" | OtherMessage string

datatype messages = Text string | Messages "message list"

fun message_text :: "messages \<Rightarrow> pyval" where
  "message_text (Text s) = PStr s"
| "message_text (Messages ms) =
     (if ms = [] then PStr []
      else (case last ms of
              DictMessage content \<Rightarrow> (case content of None \<Rightarrow> PStr [] | Some v \<Rightarrow> v)
            | OtherMessage s \<Rightarrow> PStr s))"

definition parse_message_for_task :: "messages \<Rightarrow> error + task option" where
  "parse_message_for_task ms =
     (case message_text ms of
        PStr text \<Rightarrow> Inr (classify text)
      | _ \<Rightarrow> Inl AttributeError)"

section \<open>The service client\<close>

text \<open>
  The agent object: its fields, and the requests it has sent through \<open>self.session\<close> and
  the pauses it has made, in order. Every method takes the agent and returns it.
\<close>

datatype event = Post string dict | Get string | Sleep nat

record agent =
  name :: string
  service_url :: string
  timeout :: nat
  session_id :: string
  history :: "event list"

text \<open>\<open>__init__\<close>; \<open>uuid4\<close> is the value of \<open>str(uuid.uuid4())\<close>, drawn there and nowhere
  else.\<close>

definition init :: "string \<Rightarrow> string \<Rightarrow> nat \<Rightarrow> string \<Rightarrow> agent" where
  "init nm url tmo uuid4 =
     \<lparr>name = nm, service_url = rstrip_slash url, timeout = tmo, session_id = uuid4,
      history = []\<rparr>"

definition record_event :: "event \<Rightarrow> agent \<Rightarrow> agent" where
  "record_event e self = self\<lparr>history := history self @ [e]\<rparr>"

text \<open>
  What one call of \<open>session.post\<close> comes to: a response with its status code and its
  decoded JSON body (None when \<open>response.json()\<close> raises), or an exception. Of the
  exceptions of \<open>requests\<close>, \<open>ConnectTimeout\<close> is a subclass both of \<open>ConnectionError\<close> and
  of \<open>Timeout\<close>; \<open>Timeout\<close> stands here for a timeout that is no connection error (a
  \<open>ReadTimeout\<close>), \<open>ConnectionError\<close> for a connection error that is no timeout.
\<close>

datatype outcome =
    Response nat "pyval option"
  | Timeout
  | ConnectTimeout
  | ConnectionError
  | OtherException

text \<open>The tests \<open>except requests.exceptions.Timeout\<close> and
  \<open>except requests.exceptions.ConnectionError\<close> make of what was raised.\<close>

fun is_Timeout :: "outcome \<Rightarrow> bool" where
  "is_Timeout Timeout = True"
| "is_Timeout ConnectTimeout = True"
| "is_Timeout other = False"

fun is_ConnectionError :: "outcome \<Rightarrow> bool" where
  "is_ConnectionError ConnectionError = True"
| "is_ConnectionError ConnectTimeout = True"
| "is_ConnectionError other = False"

definition max_retries :: nat where
  "max_retries = 3"

definition retry_delay :: nat where
  "retry_delay = 1"

text \<open>
  The loop \<open>for attempt in range(max_retries)\<close> of \<open>_make_request\<close>, over the attempts
  still to make; \<open>srv attempt\<close> is what the POST of that attempt comes to. The handlers
  are tried in the order of the source: \<open>Timeout\<close> first, then \<open>ConnectionError\<close>, then
  \<open>Exception\<close>. The result None is the None of the source.
\<close>

fun request_loop ::
  "(nat \<Rightarrow> outcome) \<Rightarrow> string \<Rightarrow> dict \<Rightarrow> nat list \<Rightarrow> agent \<Rightarrow> pyval option \<times> agent"
where
  "request_loop srv endpoint data [] self = (None, self)"
| "request_loop srv endpoint data (attempt # rest) self =
     (let self1 = record_event (Post endpoint data) self
      in case srv attempt of
           Response status_code body \<Rightarrow>
             if status_code = 200 then (body, self1)
             else if status_code = 503 then
               (if attempt < max_retries - 1
                then request_loop srv endpoint data rest
                       (record_event (Sleep (retry_delay * (attempt + 1))) self1)
                else request_loop srv endpoint data rest self1)
             else (None, self1)
         | raised \<Rightarrow>
             if is_Timeout raised then
               (if attempt < max_retries - 1 then request_loop srv endpoint data rest self1
                else (None, self1))
             else if is_ConnectionError raised then (None, self1)
             else (None, self1))"

definition make_request ::
  "(nat \<Rightarrow> outcome) \<Rightarrow> agent \<Rightarrow> string \<Rightarrow> dict \<Rightarrow> pyval option \<times> agent"
where
  "make_request srv self endpoint data =
     request_loop srv endpoint data [0..<max_retries] self"

definition analyze_company ::
  "(nat \<Rightarrow> outcome) \<Rightarrow> agent \<Rightarrow> pyval \<Rightarrow> pyval \<Rightarrow> pyval \<Rightarrow> pyval option \<times> agent"
where
  "analyze_company srv self company framework depth =
     (let endpoint = service_url self @ ''/api/analyze'';
          data = [(''company'', company), (''framework'', framework), (''depth'', depth),
                  (''sessionId'', PStr (session_id self))]
      in make_request srv self endpoint data)"

definition analyze_market_entry ::
  "(nat \<Rightarrow> outcome) \<Rightarrow> agent \<Rightarrow> pyval \<Rightarrow> pyval \<Rightarrow> pyval \<Rightarrow> pyval option \<times> agent"
where
  "analyze_market_entry srv self industry region company =
     (let endpoint = service_url self @ ''/api/market-entry'';
          data = [(''industry'', industry), (''region'', region), (''company'', company),
                  (''sessionId'', PStr (session_id self))]
      in make_request srv self endpoint data)"

definition analyze_competitive ::
  "(nat \<Rightarrow> outcome) \<Rightarrow> agent \<Rightarrow> pyval \<Rightarrow> pyval \<Rightarrow> pyval option \<times> agent"
where
  "analyze_competitive srv self company competitors =
     (let endpoint = service_url self @ ''/api/competitive'';
          data = [(''company'', company), (''competitors'', competitors),
                  (''sessionId'', PStr (session_id self))]
      in make_request srv self endpoint data)"

text \<open>\<open>_execute_task\<close>. The value of \<open>task.get('type')\<close> is None when the key is absent.\<close>

definition execute_task ::
  "(nat \<Rightarrow> outcome) \<Rightarrow> agent \<Rightarrow> task \<Rightarrow> pyval option \<times> agent"
where
  "execute_task srv self task =
     (let task_type = dict_get task ''type''
      in if task_type \<in> set [PStr ''analyze'', PStr ''swot''] then
           analyze_company srv self (dict_get task ''company'')
             (dict_get_default task ''framework'' (PStr ''swot''))
             (dict_get_default task ''depth'' (PStr ''standard''))
         else if task_type = PStr ''market_entry'' then
           analyze_market_entry srv self (dict_get task ''industry'') (dict_get task ''region'')
             (dict_get task ''company'')
         else if task_type = PStr ''competitive'' then
           analyze_competitive srv self (dict_get task ''company'')
             (dict_get_default task ''competitors'' (PList []))
         else (None, self))"

text \<open>\<open>check_service_health\<close>: one GET; any exception gives False.\<close>

definition check_service_health :: "outcome \<Rightarrow> agent \<Rightarrow> bool \<times> agent" where
  "check_service_health health self =
     (let self1 = record_event (Get (service_url self @ ''/api/health'')) self
      in case health of
           Response status_code body \<Rightarrow> (status_code = 200, self1)
         | _ \<Rightarrow> (False, self1))"

section \<open>Formatting a result\<close>

text \<open>
  \<open>str(v)\<close>, as an f-string applies it: a string is itself, None and the booleans are
  their names; \<open>repr\<close> stands for Python's rendering of numbers, lists and dicts.
\<close>

definition str_of :: "(pyval \<Rightarrow> string) \<Rightarrow> pyval \<Rightarrow> string" where
  "str_of repr v =
     (case v of
        PStr s \<Rightarrow> s
      | PNone \<Rightarrow> ''None''
      | PBool b \<Rightarrow> (if b then ''True'' else ''False'')
      | _ \<Rightarrow> repr v)"

definition digit_char :: "nat \<Rightarrow> char" where
  "digit_char d = char_of (48 + d)"

function str_nat :: "nat \<Rightarrow> string" where
  "str_nat n = (if n < 10 then [digit_char n] else str_nat (n div 10) @ [digit_char (n mod 10)])"
  by pat_completeness auto
termination
  by (relation "measure (\<lambda>n. n)") auto

text \<open>\<open>v[:5]\<close> as the list of the items a \<open>for\<close> loop then visits: the first five elements
  of a list, the first five characters of a string; other values cannot be sliced.\<close>

fun slice5 :: "pyval \<Rightarrow> error + pyval list" where
  "slice5 (PList xs) = Inr (take 5 xs)"
| "slice5 (PStr s) = Inr (map (\<lambda>c. PStr [c]) (take 5 s))"
| "slice5 v = Inl TypeError"

text \<open>\<open>enumerate(xs, 1)\<close>.\<close>

definition enumerate1 :: "'a list \<Rightarrow> (nat \<times> 'a) list" where
  "enumerate1 xs = zip [1..<Suc (length xs)] xs"

text \<open>Two parts of the response in sequence; the first exception raised ends the call.\<close>

fun append_lines :: "error + string list \<Rightarrow> error + string list \<Rightarrow> error + string list" where
  "append_lines (Inl e) r = Inl e"
| "append_lines (Inr xs) (Inl e) = Inl e"
| "append_lines (Inr xs) (Inr ys) = Inr (xs @ ys)"

fun join_lines :: "string list \<Rightarrow> string" where
  "join_lines [] = []"
| "join_lines [l] = l"
| "join_lines (l # m # ls) = l @ [CHR 0x0A] @ join_lines (m # ls)"

text \<open>The header by task type; \<open>upper\<close> stands for \<open>str.upper\<close>, which only a string has.\<close>

definition header_lines ::
  "(string \<Rightarrow> string) \<Rightarrow> (pyval \<Rightarrow> string) \<Rightarrow> dict \<Rightarrow> task \<Rightarrow> error + string list"
where
  "header_lines upper repr result task =
     (let task_type = dict_get task ''type''
      in if task_type \<in> set [PStr ''analyze'', PStr ''swot''] then
           (case dict_get_default result ''framework'' (PStr ''SWOT'') of
              PStr framework \<Rightarrow>
                Inr [''# Strategic Analysis: '' @ str_of repr (dict_get task ''company''),
                     ''**Framework:** '' @ upper framework]
            | _ \<Rightarrow> Inl AttributeError)
         else if task_type = PStr ''market_entry'' then
           Inr [''# Market Entry Analysis'',
                ''**Industry:** '' @ str_of repr (dict_get task ''industry''),
                ''**Region:** '' @ str_of repr (dict_get task ''region'')]
         else if task_type = PStr ''competitive'' then
           Inr [''# Competitive Analysis: '' @ str_of repr (dict_get task ''company'')]
         else Inr [])"

text \<open>One of the four blocks \<open>if 'strengths' in analysis: ...\<close>, which differ in the key
  and the heading only.\<close>

definition category_lines ::
  "(pyval \<Rightarrow> string) \<Rightarrow> dict \<Rightarrow> string \<Rightarrow> string \<Rightarrow> error + string list"
where
  "category_lines repr analysis key heading =
     (if has_key analysis key then
        (case slice5 (dict_get_default analysis key (PList [])) of
           Inl e \<Rightarrow> Inl e
         | Inr items \<Rightarrow> Inr (heading # map (\<lambda>item. ''- '' @ str_of repr item) items @ [[]]))
      else Inr [])"

definition swot_lines :: "(pyval \<Rightarrow> string) \<Rightarrow> dict \<Rightarrow> error + string list" where
  "swot_lines repr result =
     (let analysis = dict_get_default result ''analysis'' (PDict [])
      in if dict_get result ''framework'' = PStr ''swot'' then
           (case analysis of
              PDict a \<Rightarrow>
                append_lines (category_lines repr a ''strengths'' ''## Strengths'')
                  (append_lines (category_lines repr a ''weaknesses'' ''## Weaknesses'')
                     (append_lines (category_lines repr a ''opportunities'' ''## Opportunities'')
                        (category_lines repr a ''threats'' ''## Threats'')))
            | _ \<Rightarrow> Inr [])
         else Inr [])"

definition recommendation_lines :: "(pyval \<Rightarrow> string) \<Rightarrow> dict \<Rightarrow> error + string list" where
  "recommendation_lines repr result =
     (let recommendations = dict_get_default result ''recommendations'' (PList [])
      in if truthy recommendations then
           (case slice5 recommendations of
              Inl e \<Rightarrow> Inl e
            | Inr recs \<Rightarrow>
                Inr (''## Strategic Recommendations'' #
                     map (\<lambda>(i, rec). str_nat i @ ''. '' @ str_of repr rec) (enumerate1 recs)))
         else Inr [])"

text \<open>The list \<open>response\<close> at the end of \<open>_format_response\<close>; \<open>today\<close> is the value of
  \<open>datetime.now().strftime('%Y-%m-%d')\<close>.\<close>

definition response_lines ::
  "(string \<Rightarrow> string) \<Rightarrow> (pyval \<Rightarrow> string) \<Rightarrow> string \<Rightarrow> dict \<Rightarrow> task \<Rightarrow> error + string list"
where
  "response_lines upper repr today result task =
     append_lines (header_lines upper repr result task)
       (append_lines (Inr [''**Date:** '' @ today @ [CHR 0x0A]])
          (append_lines (swot_lines repr result) (recommendation_lines repr result)))"

text \<open>\<open>_format_response\<close>. A result that is true and is no dict has no \<open>get\<close>.\<close>

definition format_response ::
  "(string \<Rightarrow> string) \<Rightarrow> (pyval \<Rightarrow> string) \<Rightarrow> string \<Rightarrow> pyval \<Rightarrow> task \<Rightarrow> error + string"
where
  "format_response upper repr today result task =
     (if \<not> truthy result then Inr ''Analysis could not be completed.''
      else (case result of
              PDict d \<Rightarrow>
                (case response_lines upper repr today d task of
                   Inl e \<Rightarrow> Inl e
                 | Inr ls \<Rightarrow> Inr (join_lines ls))
            | _ \<Rightarrow> Inl AttributeError))"

text \<open>
  \<open>strategy_reply\<close>: no reply (None), the formatted text, or the message
  \<open>I encountered an error while processing your request: ...\<close> for the exception caught.
\<close>

datatype reply = NoReply | Reply string | ErrorReply error

definition strategy_reply ::
  "(string \<Rightarrow> string) \<Rightarrow> (pyval \<Rightarrow> string) \<Rightarrow> string \<Rightarrow> (nat \<Rightarrow> outcome) \<Rightarrow> agent \<Rightarrow> messages
     \<Rightarrow> reply \<times> agent"
where
  "strategy_reply upper repr today srv self ms =
     (case parse_message_for_task ms of
        Inl e \<Rightarrow> (ErrorReply e, self)
      | Inr None \<Rightarrow> (NoReply, self)
      | Inr (Some task) \<Rightarrow>
          (case execute_task srv self task of
             (None, self1) \<Rightarrow> (NoReply, self1)
           | (Some result, self1) \<Rightarrow>
               if truthy result then
                 (case format_response upper repr today result task of
                    Inl e \<Rightarrow> (ErrorReply e, self1)
                  | Inr text \<Rightarrow> (Reply text, self1))
               else (NoReply, self1)))"

section \<open>Notions used in the statements\<close>

declare findall_from.simps [simp del]
declare split_from.simps [simp del]
declare str_nat.simps [simp del]

text \<open>What a method call added to the history, and the POSTs among it.\<close>

definition new_events :: "agent \<Rightarrow> agent \<Rightarrow> event list" where
  "new_events before after = drop (length (history before)) (history after)"

fun posts :: "event list \<Rightarrow> (string \<times> dict) list" where
  "posts [] = []"
| "posts (Post endpoint data # es) = (endpoint, data) # posts es"
| "posts (e # es) = posts es"

text \<open>
  The outcomes after which \<open>_make_request\<close> goes on to the next attempt: status 503 and
  whatever the handler of \<open>Timeout\<close> catches. The outcomes claim C3 speaks of: a status
  other than 200 and 503, and a connection error, which a \<open>ConnectTimeout\<close> is too. And
  those among them that are no timeout.
\<close>

fun retried :: "outcome \<Rightarrow> bool" where
  "retried (Response status_code body) = (status_code = 503)"
| "retried raised = is_Timeout raised"

fun bad_status_or_connection_error :: "outcome \<Rightarrow> bool" where
  "bad_status_or_connection_error (Response status_code body) =
     (status_code \<noteq> 200 \<and> status_code \<noteq> 503)"
| "bad_status_or_connection_error raised = is_ConnectionError raised"

definition aborting :: "outcome \<Rightarrow> bool" where
  "aborting out = (bad_status_or_connection_error out \<and> \<not> is_Timeout out)"

text \<open>The events of the attempts before attempt \<open>k\<close>, when each of them was retried: a
  POST each, followed by the pause when the answer was a 503.\<close>

definition retry_events :: "(nat \<Rightarrow> outcome) \<Rightarrow> string \<Rightarrow> dict \<Rightarrow> nat \<Rightarrow> event list" where
  "retry_events srv endpoint data k =
     concat (map (\<lambda>j. case srv j of
                          Response status_code body \<Rightarrow> [Post endpoint data, Sleep (j + 1)]
                        | raised \<Rightarrow> [Post endpoint data]) [0..<k])"

text \<open>
  For the proofs about \<open>_extract_company_name\<close>: a property of group 1 that holds after
  every match of a pattern; patterns without a group; patterns every path of which goes
  through the group \<open>G\<close> last; and the two properties in question, a text that starts with a
  character that is no whitespace, and a text that is not empty.
\<close>

definition always :: "(string option \<Rightarrow> bool) \<Rightarrow> bool \<Rightarrow> rx \<Rightarrow> bool" where
  "always P ic r = (\<forall>st. \<forall>st' \<in> set (rmatch ic r st). P (snd (snd st')))"

fun no_group :: "rx \<Rightarrow> bool" where
  "no_group (Cat a b) = (no_group a \<and> no_group b)"
| "no_group (Alt a b) = (no_group a \<and> no_group b)"
| "no_group (Grp r) = False"
| "no_group r = True"

fun ends_in :: "rx \<Rightarrow> rx \<Rightarrow> bool" where
  "ends_in G (Cat a b) = (ends_in G b \<or> (ends_in G a \<and> no_group b))"
| "ends_in G (Alt a b) = (ends_in G a \<and> ends_in G b)"
| "ends_in G (Grp r) = (Grp r = G)"
| "ends_in G r = False"

definition named :: "string option \<Rightarrow> bool" where
  "named g = (case g of Some (c # cs) \<Rightarrow> \<not> isspace c | _ \<Rightarrow> False)"

definition filled :: "string option \<Rightarrow> bool" where
  "filled g = (case g of Some (c # cs) \<Rightarrow> True | _ \<Rightarrow> False)"

section \<open>The retry policy of \<open>_make_request\<close>\<close>

lemma upt_max_retries: "[0..<max_retries] = [0, 1, 2]"
  by (simp add: max_retries_def upt_rec)

text \<open>
  Claim C2. When every POST attempt receives HTTP 503, \<open>_make_request\<close> makes exactly
  three attempts, sleeps 1 time unit after the first and 2 after the second (the attempt
  number times \<open>retry_delay = 1\<close>), does not sleep after the third, and returns None. The
  history of the agent grows by exactly these five events.
\<close>

theorem make_request_all_503:
  assumes "\<forall>attempt<max_retries. \<exists>body. srv attempt = Response 503 body"
  shows "make_request srv self endpoint data =
           (None, self\<lparr>history := history self @
              [Post endpoint data, Sleep 1, Post endpoint data, Sleep 2, Post endpoint data]\<rparr>)"
proof -
  from assms obtain b0 b1 b2 where
    "srv 0 = Response 503 b0" "srv 1 = Response 503 b1" "srv 2 = Response 503 b2"
    unfolding max_retries_def
    by (metis numeral_2_eq_2 numeral_3_eq_3 zero_less_Suc lessI less_SucI One_nat_def)
  then show ?thesis
    unfolding make_request_def upt_max_retries
    by (simp add: record_event_def max_retries_def retry_delay_def)
qed

theorem make_request_all_503_witness:
  "make_request (\<lambda>k. Response 503 None)
      (init ''StrategyConsultant'' ''http://localhost:3001/'' 30 ''u'')
      ''http://localhost:3001/api/analyze'' [] =
     (None, \<lparr>name = ''StrategyConsultant'', service_url = ''http://localhost:3001'',
        timeout = 30, session_id = ''u'',
        history = [Post ''http://localhost:3001/api/analyze'' [], Sleep 1,
                   Post ''http://localhost:3001/api/analyze'' [], Sleep 2,
                   Post ''http://localhost:3001/api/analyze'' []]\<rparr>)"
  using make_request_all_503 [of "\<lambda>k. Response 503 None"
      "init ''StrategyConsultant'' ''http://localhost:3001/'' 30 ''u''"
      "''http://localhost:3001/api/analyze''" "[]"]
  by (simp add: init_def rstrip_slash_def)

text \<open>
  Claim C3, as stated, fails: a \<open>ConnectTimeout\<close> is a connection error, but the handler
  of \<open>Timeout\<close> comes first in the source and catches it, so the attempt is retried. When
  every attempt fails with it, three POSTs are sent.
\<close>

theorem connect_timeout_is_retried:
  "bad_status_or_connection_error ConnectTimeout \<and>
   make_request (\<lambda>k. ConnectTimeout) (init ''a'' ''http://h'' 30 ''u'') ''http://h/api/analyze'' [] =
     (None, \<lparr>name = ''a'', service_url = ''http://h'', timeout = 30, session_id = ''u'',
        history = [Post ''http://h/api/analyze'' [], Post ''http://h/api/analyze'' [],
                   Post ''http://h/api/analyze'' []]\<rparr>)"
  unfolding make_request_def upt_max_retries
  by (simp add: init_def rstrip_slash_def record_event_def max_retries_def)

lemma retry_events_0: "retry_events srv endpoint data 0 = []"
  by (simp add: retry_events_def)

lemma retry_events_1:
  "retry_events srv endpoint data (Suc 0) =
     (case srv 0 of Response status_code body \<Rightarrow> [Post endpoint data, Sleep 1]
      | raised \<Rightarrow> [Post endpoint data])"
  by (simp add: retry_events_def split: outcome.split)

lemma retry_events_2:
  "retry_events srv endpoint data 2 =
     (case srv 0 of Response status_code body \<Rightarrow> [Post endpoint data, Sleep 1]
      | raised \<Rightarrow> [Post endpoint data]) @
     (case srv 1 of Response status_code body \<Rightarrow> [Post endpoint data, Sleep 2]
      | raised \<Rightarrow> [Post endpoint data])"
  by (simp add: retry_events_def numeral_2_eq_2 split: outcome.split)

text \<open>
  Claim C3, amended. If attempt \<open>k\<close> is made (the attempts before it met a 503 or a
  timeout, which are retried) and receives a status other than 200 and 503, or fails with
  a connection error that is no timeout, then \<open>_make_request\<close> returns None at once: the
  POST of attempt \<open>k\<close> is the last event of the call, with no pause and no POST after it.
\<close>

theorem make_request_aborts:
  assumes "k < max_retries" and "\<forall>j<k. retried (srv j)" and "aborting (srv k)"
  shows "make_request srv self endpoint data =
           (None, self\<lparr>history := history self @ retry_events srv endpoint data k @
                                     [Post endpoint data]\<rparr>)"
proof -
  have "k = 0 \<or> k = 1 \<or> k = 2"
    using assms(1) unfolding max_retries_def by arith
  then consider "k = 0" | "k = 1" | "k = 2"
    by blast
  then show ?thesis
  proof cases
    case 1
    then show ?thesis
      using assms(3) unfolding make_request_def upt_max_retries
      by (cases "srv 0") (auto simp: record_event_def aborting_def retry_events_0)
  next
    case 2
    then have "retried (srv 0)" "aborting (srv 1)"
      using assms(2,3) by auto
    then show ?thesis
      using 2 unfolding make_request_def upt_max_retries
      by (cases "srv 0"; cases "srv 1")
         (auto simp: record_event_def max_retries_def retry_delay_def aborting_def retry_events_1)
  next
    case 3
    then have "retried (srv 0)" "retried (srv 1)" "aborting (srv 2)"
      using assms(2,3) by auto
    then show ?thesis
      using 3 unfolding make_request_def upt_max_retries
      by (cases "srv 0"; cases "srv 1"; cases "srv 2")
         (auto simp: record_event_def max_retries_def retry_delay_def aborting_def retry_events_2)
  qed
qed

theorem make_request_aborts_witness:
  "(1::nat) < max_retries \<and>
   retried ((\<lambda>k::nat. if k = 0 then Response 503 None else ConnectionError) 0) \<and>
   aborting ((\<lambda>k::nat. if k = 0 then Response 503 None else ConnectionError) 1) \<and>
   make_request (\<lambda>k. if k = 0 then Response 503 None else ConnectionError)
          (init ''a'' ''http://h'' 30 ''u'') ''http://h/api/analyze'' [] =
     (None, \<lparr>name = ''a'', service_url = ''http://h'', timeout = 30, session_id = ''u'',
        history = [Post ''http://h/api/analyze'' [], Sleep 1, Post ''http://h/api/analyze'' []]\<rparr>)"
proof -
  let ?srv = "\<lambda>k::nat. if k = 0 then Response 503 None else ConnectionError"
  let ?a = "init ''a'' ''http://h'' 30 ''u''"
  have k: "(1::nat) < max_retries"
    by (simp add: max_retries_def)
  have before: "\<forall>j<1::nat. retried (?srv j)"
    by simp
  have last: "aborting (?srv 1)"
    by (simp add: aborting_def)
  have "make_request ?srv ?a ''http://h/api/analyze'' [] =
          (None, ?a\<lparr>history := history ?a @ retry_events ?srv ''http://h/api/analyze'' [] 1 @
                                     [Post ''http://h/api/analyze'' []]\<rparr>)"
    using k before last by (rule make_request_aborts)
  then show ?thesis
    using k last by (simp add: init_def rstrip_slash_def retry_events_1)
qed

section \<open>Requests and the session identifier\<close>

text \<open>A call of \<open>_make_request\<close> changes nothing of the agent but its history, to which it
  adds at least one POST, and POSTs to its endpoint with its body only.\<close>

lemma request_loop_effect:
  "\<exists>evs. snd (request_loop srv e d as self) = self\<lparr>history := history self @ evs\<rparr> \<and>
         set (posts evs) \<subseteq> {(e, d)} \<and> (as \<noteq> [] \<longrightarrow> posts evs \<noteq> [])"
proof (induction as arbitrary: self)
  case Nil
  show ?case by (rule exI [of _ "[]"]) simp
next
  case (Cons a as)
  let ?s1 = "record_event (Post e d) self"
  let ?s2 = "record_event (Sleep (retry_delay * (a + 1))) ?s1"
  from Cons [of ?s1] obtain evs1 where
    e1: "snd (request_loop srv e d as ?s1) = ?s1\<lparr>history := history ?s1 @ evs1\<rparr>"
        "set (posts evs1) \<subseteq> {(e, d)}" by blast
  from Cons [of ?s2] obtain evs2 where
    e2: "snd (request_loop srv e d as ?s2) = ?s2\<lparr>history := history ?s2 @ evs2\<rparr>"
        "set (posts evs2) \<subseteq> {(e, d)}" by blast
  have posts_app: "\<And>xs ys. posts (xs @ ys) = posts xs @ posts ys"
    subgoal for xs ys by (induction xs rule: posts.induct) auto
    done
  have stop: "\<exists>evs. ?s1 = self\<lparr>history := history self @ evs\<rparr> \<and>
         set (posts evs) \<subseteq> {(e, d)} \<and> posts evs \<noteq> []"
    by (rule exI [of _ "[Post e d]"]) (simp add: record_event_def)
  have go1: "\<exists>evs. snd (request_loop srv e d as ?s1) = self\<lparr>history := history self @ evs\<rparr> \<and>
         set (posts evs) \<subseteq> {(e, d)} \<and> posts evs \<noteq> []"
    using e1 by (intro exI [of _ "Post e d # evs1"]) (simp add: record_event_def)
  have go2: "\<exists>evs. snd (request_loop srv e d as ?s2) = self\<lparr>history := history self @ evs\<rparr> \<and>
         set (posts evs) \<subseteq> {(e, d)} \<and> posts evs \<noteq> []"
    using e2 by (intro exI [of _ "Post e d # Sleep (retry_delay * (a + 1)) # evs2"])
      (simp add: record_event_def)
  have "snd (request_loop srv e d (a # as) self) = ?s1 \<or>
        snd (request_loop srv e d (a # as) self) = snd (request_loop srv e d as ?s1) \<or>
        snd (request_loop srv e d (a # as) self) = snd (request_loop srv e d as ?s2)"
    by (cases "srv a") (simp_all add: Let_def)
  then show ?case
    using stop go1 go2 by (elim disjE) simp_all
qed

lemma make_request_effect:
  "\<exists>evs. snd (make_request srv self e d) = self\<lparr>history := history self @ evs\<rparr> \<and>
         set (posts evs) = {(e, d)}"
proof -
  from request_loop_effect [of srv e d "[0..<max_retries]" self]
  obtain evs where "snd (make_request srv self e d) = self\<lparr>history := history self @ evs\<rparr>"
    "set (posts evs) \<subseteq> {(e, d)}" "posts evs \<noteq> []"
    by (auto simp: make_request_def upt_max_retries)
  moreover from this have "set (posts evs) = {(e, d)}"
    by (cases "posts evs") auto
  ultimately show ?thesis by blast
qed

lemma make_request_posts:
  "set (posts (new_events self (snd (make_request srv self e d)))) = {(e, d)}"
proof -
  obtain evs where "snd (make_request srv self e d) = self\<lparr>history := history self @ evs\<rparr>"
    and "set (posts evs) = {(e, d)}"
    using make_request_effect by blast
  then show ?thesis
    by (simp add: new_events_def)
qed

lemma make_request_session_id:
  "session_id (snd (make_request srv self e d)) = session_id self"
proof -
  obtain evs where "snd (make_request srv self e d) = self\<lparr>history := history self @ evs\<rparr>"
    using make_request_effect by blast
  then show ?thesis
    by simp
qed

text \<open>
  Claim C6. The endpoint of the requests \<open>_execute_task\<close> sends is determined by the task
  type alone: for \<open>analyze\<close> and \<open>swot\<close> every POST of the call (there is at least one)
  goes to \<open>/api/analyze\<close> under the service URL, for \<open>market_entry\<close> to
  \<open>/api/market-entry\<close>, for \<open>competitive\<close> to \<open>/api/competitive\<close>; for any other type,
  also an absent one, the result is None and the agent, with its history, is unchanged.
\<close>

theorem execute_task_endpoint:
  "(dict_get task ''type'' \<in> {PStr ''analyze'', PStr ''swot''} \<longrightarrow>
      fst ` set (posts (new_events self (snd (execute_task srv self task)))) =
        {service_url self @ ''/api/analyze''}) \<and>
   (dict_get task ''type'' = PStr ''market_entry'' \<longrightarrow>
      fst ` set (posts (new_events self (snd (execute_task srv self task)))) =
        {service_url self @ ''/api/market-entry''}) \<and>
   (dict_get task ''type'' = PStr ''competitive'' \<longrightarrow>
      fst ` set (posts (new_events self (snd (execute_task srv self task)))) =
        {service_url self @ ''/api/competitive''}) \<and>
   (dict_get task ''type'' \<notin>
        {PStr ''analyze'', PStr ''swot'', PStr ''market_entry'', PStr ''competitive''} \<longrightarrow>
      execute_task srv self task = (None, self))"
  by (simp add: execute_task_def analyze_company_def analyze_market_entry_def
        analyze_competitive_def make_request_posts Let_def)

text \<open>
  Claim C9. The session identifier is the value drawn at construction; \<open>analyze_company\<close>,
  \<open>analyze_market_entry\<close>, \<open>analyze_competitive\<close>, \<open>_execute_task\<close>,
  \<open>check_service_health\<close> and \<open>strategy_reply\<close> return the agent with the same identifier;
  and the body of every POST sent by the three analysis methods, and by \<open>_execute_task\<close>,
  has it as its \<open>sessionId\<close>.
\<close>

theorem session_id_fixed:
  "session_id (init nm url tmo uuid4) = uuid4 \<and>
   session_id (snd (analyze_company srv self company framework depth)) = session_id self \<and>
   session_id (snd (analyze_market_entry srv self industry region company)) = session_id self \<and>
   session_id (snd (analyze_competitive srv self company competitors)) = session_id self \<and>
   session_id (snd (execute_task srv self task)) = session_id self \<and>
   session_id (snd (check_service_health health self)) = session_id self \<and>
   session_id (snd (strategy_reply upper repr today srv self ms)) = session_id self \<and>
   (\<forall>p \<in> set (posts (new_events self (snd (analyze_company srv self company framework depth)))).
      dict_get (snd p) ''sessionId'' = PStr (session_id self)) \<and>
   (\<forall>p \<in> set (posts (new_events self (snd (analyze_market_entry srv self industry region company)))).
      dict_get (snd p) ''sessionId'' = PStr (session_id self)) \<and>
   (\<forall>p \<in> set (posts (new_events self (snd (analyze_competitive srv self company competitors)))).
      dict_get (snd p) ''sessionId'' = PStr (session_id self)) \<and>
   (\<forall>p \<in> set (posts (new_events self (snd (execute_task srv self task)))).
      dict_get (snd p) ''sessionId'' = PStr (session_id self))"
proof -
  have exec: "\<And>task. session_id (snd (execute_task srv self task)) = session_id self"
    by (simp add: execute_task_def analyze_company_def analyze_market_entry_def
          analyze_competitive_def make_request_session_id Let_def)
  have reply: "session_id (snd (strategy_reply upper repr today srv self ms)) = session_id self"
  proof (cases "parse_message_for_task ms")
    case (Inl e)
    then show ?thesis by (simp add: strategy_reply_def)
  next
    case (Inr parsed)
    show ?thesis
    proof (cases parsed)
      case None
      with Inr show ?thesis by (simp add: strategy_reply_def)
    next
      case (Some t)
      obtain r s1 where run: "execute_task srv self t = (r, s1)"
        by (cases "execute_task srv self t")
      have "session_id s1 = session_id self"
        using exec [of t] run by simp
      then show ?thesis
        using Inr Some run by (simp add: strategy_reply_def split: option.splits sum.splits)
    qed
  qed
  have health: "session_id (snd (check_service_health health self)) = session_id self"
    by (cases health) (simp_all add: check_service_health_def record_event_def)
  have body: "\<And>e d. dict_get d ''sessionId'' = PStr (session_id self) \<Longrightarrow>
      \<forall>p \<in> set (posts (new_events self (snd (make_request srv self e d)))).
        dict_get (snd p) ''sessionId'' = PStr (session_id self)"
    by (simp add: make_request_posts)
  have idle: "posts (new_events self self) = []"
    by (simp add: new_events_def)
  show ?thesis
    using exec reply health
    by (simp add: init_def execute_task_def analyze_company_def analyze_market_entry_def
          analyze_competitive_def make_request_session_id make_request_posts idle
          dict_get_def dict_get_default_def Let_def)
qed

theorem session_id_fixed_witness:
  "session_id (init ''StrategyConsultant'' ''http://localhost:3001'' 30 ''uuid-1'') = ''uuid-1'' \<and>
   session_id (snd (analyze_company (\<lambda>k. Response 200 (Some (PDict [])))
      (init ''StrategyConsultant'' ''http://localhost:3001'' 30 ''uuid-1'')
      (PStr ''Tesla'') (PStr ''swot'') (PStr ''standard''))) = ''uuid-1'' \<and>
   posts (new_events (init ''StrategyConsultant'' ''http://localhost:3001'' 30 ''uuid-1'')
     (snd (analyze_company (\<lambda>k. Response 200 (Some (PDict [])))
      (init ''StrategyConsultant'' ''http://localhost:3001'' 30 ''uuid-1'')
      (PStr ''Tesla'') (PStr ''swot'') (PStr ''standard'')))) =
     [(''http://localhost:3001/api/analyze'',
       [(''company'', PStr ''Tesla''), (''framework'', PStr ''swot''),
        (''depth'', PStr ''standard''), (''sessionId'', PStr ''uuid-1'')])]"
proof -
  let ?a = "init ''StrategyConsultant'' ''http://localhost:3001'' 30 ''uuid-1''"
  let ?srv = "\<lambda>k::nat. Response 200 (Some (PDict []))"
  note fixed = session_id_fixed [where nm = "''StrategyConsultant''"
      and url = "''http://localhost:3001''" and tmo = 30 and ?uuid4.0 = "''uuid-1''"
      and srv = ?srv and self = ?a and company = "PStr ''Tesla''"
      and framework = "PStr ''swot''" and depth = "PStr ''standard''"]
  have made: "session_id ?a = ''uuid-1''"
    by (rule fixed [THEN conjunct1])
  have "session_id (snd (analyze_company ?srv ?a (PStr ''Tesla'') (PStr ''swot'') (PStr ''standard'')))
          = session_id ?a"
    by (rule fixed [THEN conjunct2, THEN conjunct1])
  then have kept: "session_id (snd (analyze_company ?srv ?a (PStr ''Tesla'') (PStr ''swot'')
      (PStr ''standard''))) = ''uuid-1''"
    using made by simp
  have sent: "posts (new_events ?a
     (snd (analyze_company ?srv ?a (PStr ''Tesla'') (PStr ''swot'') (PStr ''standard'')))) =
     [(''http://localhost:3001/api/analyze'',
       [(''company'', PStr ''Tesla''), (''framework'', PStr ''swot''),
        (''depth'', PStr ''standard''), (''sessionId'', PStr ''uuid-1'')])]"
    by (simp add: init_def rstrip_slash_def analyze_company_def make_request_def upt_max_retries
          record_event_def new_events_def)
  show ?thesis
    using made kept sent by blast
qed

theorem execute_task_endpoint_witness:
  "dict_get [(''type'', PStr ''market_entry''), (''industry'', PStr ''retail''),
             (''region'', PStr ''Asia''), (''company'', PNone)] ''type'' = PStr ''market_entry'' \<and>
   fst ` set (posts (new_events (init ''a'' ''http://h/'' 30 ''u'')
      (snd (execute_task (\<lambda>k. Timeout) (init ''a'' ''http://h/'' 30 ''u'')
         [(''type'', PStr ''market_entry''), (''industry'', PStr ''retail''),
          (''region'', PStr ''Asia''), (''company'', PNone)])))) = {''http://h/api/market-entry''} \<and>
   execute_task (\<lambda>k. Timeout) (init ''a'' ''http://h/'' 30 ''u'') [(''type'', PStr ''report'')] =
     (None, init ''a'' ''http://h/'' 30 ''u'')"
proof -
  let ?a = "init ''a'' ''http://h/'' 30 ''u''"
  let ?srv = "\<lambda>k::nat. Timeout"
  let ?t = "[(''type'', PStr ''market_entry''), (''industry'', PStr ''retail''),
             (''region'', PStr ''Asia''), (''company'', PNone)]"
  have ty: "dict_get ?t ''type'' = PStr ''market_entry''"
    by (simp add: dict_get_def dict_get_default_def)
  have url: "service_url ?a = ''http://h''"
    by (simp add: init_def rstrip_slash_def)
  have "fst ` set (posts (new_events ?a (snd (execute_task ?srv ?a ?t)))) =
          {service_url ?a @ ''/api/market-entry''}"
    using execute_task_endpoint [of ?t ?a ?srv, THEN conjunct2, THEN conjunct1] ty
    by (rule mp)
  then have path: "fst ` set (posts (new_events ?a (snd (execute_task ?srv ?a ?t)))) =
          {''http://h/api/market-entry''}"
    unfolding url by simp
  have other: "dict_get [(''type'', PStr ''report'')] ''type'' \<notin>
      {PStr ''analyze'', PStr ''swot'', PStr ''market_entry'', PStr ''competitive''}"
    by (simp add: dict_get_def dict_get_default_def)
  have none: "execute_task ?srv ?a [(''type'', PStr ''report'')] = (None, ?a)"
    using execute_task_endpoint [of "[(''type'', PStr ''report'')]" ?a ?srv,
        THEN conjunct2, THEN conjunct2, THEN conjunct2] other
    by (rule mp)
  show ?thesis
    using ty path none by blast
qed

section \<open>The order of the rules\<close>

text \<open>
  Claim C1. The classifier tries its rules in the order SWOT, Five Forces, market entry,
  competitive analysis, generic \<open>analyze\<close>; the result is what the branch of the first rule
  whose condition holds builds from the text, whatever the later rules say of the text, and
  None when no condition holds.
\<close>

theorem classify_first_match:
  "(swot_rule text \<longrightarrow> classify text = swot_branch text) \<and>
   (\<not> swot_rule text \<and> five_forces_rule text \<longrightarrow> classify text = five_forces_branch text) \<and>
   (\<not> swot_rule text \<and> \<not> five_forces_rule text \<and> market_entry_rule text \<longrightarrow>
      classify text = market_entry_branch text) \<and>
   (\<not> swot_rule text \<and> \<not> five_forces_rule text \<and> \<not> market_entry_rule text \<and>
    competitive_rule text \<longrightarrow> classify text = competitive_branch text) \<and>
   (\<not> swot_rule text \<and> \<not> five_forces_rule text \<and> \<not> market_entry_rule text \<and>
    \<not> competitive_rule text \<and> analyze_rule text \<longrightarrow> classify text = analyze_branch text) \<and>
   (\<not> swot_rule text \<and> \<not> five_forces_rule text \<and> \<not> market_entry_rule text \<and>
    \<not> competitive_rule text \<and> \<not> analyze_rule text \<longrightarrow> classify text = None)"
  by (simp add: classify_def)

theorem classify_first_match_witness:
  "swot_rule ''SWOT analysis of Tesla, then market entry'' \<and>
   market_entry_rule ''SWOT analysis of Tesla, then market entry'' \<and>
   classify ''SWOT analysis of Tesla, then market entry'' =
     Some [(''type'', PStr ''swot''), (''company'', PStr ''Tesla''),
           (''framework'', PStr ''swot''), (''depth'', PStr ''standard'')]"
proof -
  let ?t = "''SWOT analysis of Tesla, then market entry''"
  have first: "swot_rule ?t"
    by code_simp
  have later: "market_entry_rule ?t"
    by code_simp
  have task: "swot_branch ?t =
     Some [(''type'', PStr ''swot''), (''company'', PStr ''Tesla''),
           (''framework'', PStr ''swot''), (''depth'', PStr ''standard'')]"
    by code_simp
  have "classify ?t = swot_branch ?t"
    using classify_first_match [of ?t, THEN conjunct1] first by (rule mp)
  then show ?thesis
    using first later task by simp
qed

text \<open>
  Claim C10. If the SWOT rule or the Five Forces rule matches and no company name is
  extracted, the classifier returns no task, for every text: also for one with keywords
  of market entry or of competitive analysis, as the example below has.
\<close>

theorem higher_rule_suppresses:
  assumes "swot_rule text \<or> five_forces_rule text"
    and "extract_company_name text = None"
  shows "classify text = None"
  using assms
  by (auto simp: classify_def swot_branch_def five_forces_branch_def truthy_name_def opt_val_def)

theorem higher_rule_suppresses_witness:
  "swot_rule ''swot market entry'' \<and> market_entry_rule ''swot market entry'' \<and>
   extract_company_name ''swot market entry'' = None \<and>
   classify ''swot market entry'' = None"
proof -
  let ?t = "''swot market entry''"
  have first: "swot_rule ?t"
    by code_simp
  have later: "market_entry_rule ?t"
    by code_simp
  have nameless: "extract_company_name ?t = None"
    by code_simp
  from first have "swot_rule ?t \<or> five_forces_rule ?t" ..
  then have "classify ?t = None"
    using nameless by (rule higher_rule_suppresses)
  then show ?thesis
    using first later nameless by simp
qed

section \<open>The defaults of the extractors\<close>

lemma first_pattern_match_None:
  "(\<forall>p \<in> set ps. re_search True p text = None) \<Longrightarrow> first_pattern_match ps text = None"
  by (induction ps) auto

lemma first_region_None:
  "(\<forall>r \<in> set rs. \<not> str_in r low) \<Longrightarrow> first_region rs low = None"
  by (induction rs) auto

text \<open>
  Claim C8. When none of its patterns matches the text, \<open>_extract_industry\<close> returns
  \<open>technology\<close>; when no region name occurs in the lowered text, \<open>_extract_region\<close> returns
  \<open>Global\<close>; when none of the six depth words occurs in it, \<open>_extract_depth\<close> returns
  \<open>standard\<close>.
\<close>

theorem extractor_defaults:
  "((\<forall>pattern \<in> set industry_patterns. re_search True pattern text = None) \<longrightarrow>
      extract_industry text = ''technology'') \<and>
   ((\<forall>region \<in> set regions. \<not> str_in region (str_lower text)) \<longrightarrow>
      extract_region text = ''Global'') \<and>
   ((\<forall>word \<in> set [''comprehensive'', ''detailed'', ''thorough'', ''quick'', ''brief'', ''summary''].
       \<not> str_in word (str_lower text)) \<longrightarrow>
      extract_depth text = ''standard'')"
  by (simp add: extract_industry_def extract_region_def extract_depth_def
        first_pattern_match_None first_region_None)

theorem extractor_defaults_witness:
  "extract_industry ''Analyze Tesla'' = ''technology'' \<and>
   extract_region ''Analyze Tesla'' = ''Global'' \<and>
   extract_depth ''Analyze Tesla'' = ''standard''"
proof -
  let ?t = "''Analyze Tesla''"
  have no_industry: "\<forall>pattern \<in> set industry_patterns. re_search True pattern ?t = None"
    by code_simp
  have no_region: "\<forall>region \<in> set regions. \<not> str_in region (str_lower ?t)"
    by code_simp
  have no_depth: "\<forall>word \<in> set [''comprehensive'', ''detailed'', ''thorough'', ''quick'',
      ''brief'', ''summary'']. \<not> str_in word (str_lower ?t)"
    by code_simp
  have "extract_industry ?t = ''technology''"
    using extractor_defaults [of ?t, THEN conjunct1] no_industry by (rule mp)
  moreover have "extract_region ?t = ''Global''"
    using extractor_defaults [of ?t, THEN conjunct2, THEN conjunct1] no_region by (rule mp)
  moreover have "extract_depth ?t = ''standard''"
    using extractor_defaults [of ?t, THEN conjunct2, THEN conjunct2] no_depth by (rule mp)
  ultimately show ?thesis
    by blast
qed

section \<open>What \<open>_extract_company_name\<close> returns\<close>

text \<open>A pattern without a group leaves group 1 as it is; a property the group \<open>G\<close> always
  establishes holds after every match of a pattern that ends in \<open>G\<close>, and so of the match
  \<open>re.search\<close> finds.\<close>

lemma no_group_same:
  "no_group r \<Longrightarrow> st' \<in> set (rmatch ic r st) \<Longrightarrow> snd (snd st') = snd (snd st)"
proof (induction r arbitrary: st st')
  case (Lit l)
  then show ?case by (cases st) (auto split: if_splits)
next
  case (Cls cs)
  then show ?case by (cases st) (auto split: if_splits list.splits)
next
  case (Rep cs m greedy)
  then show ?case by (cases st) (auto simp: Let_def split: if_splits)
next
  case (Cat a b)
  from Cat.prems obtain mid where "mid \<in> set (rmatch ic a st)" "st' \<in> set (rmatch ic b mid)"
    by auto
  with Cat.IH Cat.prems(1) show ?case by (metis no_group.simps(1))
next
  case (Alt a b)
  from Alt.prems have "st' \<in> set (rmatch ic a st) \<or> st' \<in> set (rmatch ic b st)"
    by simp
  with Alt.IH Alt.prems(1) show ?case by (metis no_group.simps(2))
next
  case (Grp r)
  then show ?case by simp
next
  case Bol
  then show ?case by (cases st) (auto split: if_splits)
next
  case Eol
  then show ?case by (cases st) (auto split: if_splits)
qed

lemma ends_in_always:
  "always P ic G \<Longrightarrow> ends_in G r \<Longrightarrow> always P ic r"
proof (induction r)
  case (Cat a b)
  show ?case
    unfolding always_def
  proof (intro allI ballI)
    fix st st'
    assume "st' \<in> set (rmatch ic (Cat a b) st)"
    then obtain mid where mid: "mid \<in> set (rmatch ic a st)" "st' \<in> set (rmatch ic b mid)"
      by auto
    from Cat.prems(2) consider "ends_in G b" | "ends_in G a" "no_group b"
      by auto
    then show "P (snd (snd st'))"
    proof cases
      case 1
      with Cat.IH(2) Cat.prems(1) have "always P ic b" by simp
      with mid(2) show ?thesis unfolding always_def by blast
    next
      case 2
      with Cat.IH(1) Cat.prems(1) have "always P ic a" by simp
      with mid(1) have "P (snd (snd mid))" unfolding always_def by blast
      with no_group_same [OF 2(2) mid(2)] show ?thesis by simp
    qed
  qed
next
  case (Alt a b)
  then have "always P ic a" "always P ic b" by simp_all
  then show ?case unfolding always_def by (metis Un_iff rmatch.simps(5) set_append)
qed auto

lemma search_from_in:
  "search_from ic r n s = Some (start, st') \<Longrightarrow> \<exists>st. st' \<in> set (rmatch ic r st)"
proof (induction s arbitrary: n)
  case Nil
  then have "st' \<in> set (rmatch ic r (n, [], None))"
    by (cases "rmatch ic r (n, [], None)") auto
  then show ?case by blast
next
  case (Cons c cs)
  show ?case
  proof (cases "rmatch ic r (n, c # cs, None)")
    case Nil
    with Cons show ?thesis by simp
  next
    case (Cons m ms)
    with Cons.prems have "st' = m" by simp
    with Cons have "st' \<in> set (rmatch ic r (n, c # cs, None))" by simp
    then show ?thesis by blast
  qed
qed

lemma always_search:
  "always P ic r \<Longrightarrow> search_from ic r n s = Some (start, k, rest, g) \<Longrightarrow> P g"
proof -
  assume a: "always P ic r" and "search_from ic r n s = Some (start, k, rest, g)"
  then obtain st where "(k, rest, g) \<in> set (rmatch ic r st)"
    using search_from_in by blast
  with a have "P (snd (snd (k, rest, g)))" unfolding always_def by blast
  then show ?thesis by simp
qed


text \<open>The company group starts with a letter, so its text stripped is not empty; the
  quoted group holds at least one character. A name that is returned is therefore never
  the empty string, and is true in \<open>if company:\<close>.\<close>

lemma letter_not_space:
  "in_cset True (Pos [Rng CHR ''A'' CHR ''Z'']) c \<Longrightarrow> \<not> isspace c"
  by (auto simp: items_have_def isspace_def between_def ord_def lower_char_def upper_char_def
        Let_def split: if_splits)

lemma company_group_named: "always named True company_group"
  unfolding always_def company_group_def
proof (intro allI ballI)
  fix st st'
  let ?first = "Pos [Rng CHR ''A'' CHR ''Z'']"
  let ?more = "Pos [Rng CHR ''A'' CHR ''Z'', Rng CHR ''a'' CHR ''z'', Rng CHR ''0'' CHR ''9'',
                    Space, Ch CHR ''&'']"
  assume m: "st' \<in> set (rmatch True (Grp (Cat (Cls ?first) (Rep ?more 1 False))) st)"
  obtain n s g where st: "st = (n, s, g)" by (cases st)
  show "named (snd (snd st'))"
  proof (cases s)
    case Nil
    with m st show ?thesis by simp
  next
    case (Cons c rest)
    with m st have "in_cset True ?first c"
      by (auto split: if_splits)
    then have "\<not> isspace c" by (rule letter_not_space)
    moreover from m st Cons obtain j where "snd (snd st') = Some (take (Suc n + j - n) (c # rest))"
      by (auto simp: Let_def split: if_splits)
    ultimately show ?thesis by (simp add: named_def)
  qed
qed

lemma quoted_group_filled: "always filled ic (Grp (Rep cs 1 greedy))"
  unfolding always_def
proof (intro allI ballI)
  fix st st'
  assume m: "st' \<in> set (rmatch ic (Grp (Rep cs 1 greedy)) st)"
  obtain n s g where st: "st = (n, s, g)" by (cases st)
  from m st obtain j where j: "1 \<le> j" "j \<le> length (takeWhile (in_cset ic cs) s)"
    "snd (snd st') = Some (take (n + j - n) s)"
    by (auto simp: Let_def split: if_splits)
  from j(1,2) have "s \<noteq> []" by auto
  with j show "filled (snd (snd st'))"
    by (cases s; cases j) (auto simp: filled_def)
qed

lemma strip_nonempty: "\<not> isspace c \<Longrightarrow> strip (c # cs) \<noteq> []"
  by (auto simp: strip_def lstrip_def rstrip_def)

lemma first_pattern_match_Some:
  "first_pattern_match ps text = Some x \<Longrightarrow>
   \<exists>p \<in> set ps. \<exists>m. re_search True p text = Some m \<and> x = strip (group1 m)"
proof (induction ps)
  case Nil
  then show ?case by simp
next
  case (Cons p ps)
  show ?case
  proof (cases "re_search True p text")
    case None
    with Cons show ?thesis by simp
  next
    case (Some m)
    with Cons.prems have "x = strip (group1 m)" by simp
    with Some have "re_search True p text = Some m \<and> x = strip (group1 m)" by simp
    then show ?thesis by (metis list.set_intros(1))
  qed
qed

lemma company_patterns_end: "\<forall>p \<in> set company_patterns. ends_in company_group p"
  by (simp add: company_patterns_def seq_def alts_def spaces1_def spaces0_def company_group_def)

lemma extract_company_name_nonempty:
  assumes "extract_company_name text = Some company"
  shows "company \<noteq> []"
proof (cases "first_pattern_match company_patterns text")
  case (Some x)
  with assms have "x = company" by (simp add: extract_company_name_def)
  with Some obtain p m where p: "p \<in> set company_patterns" "re_search True p text = Some m"
    "company = strip (group1 m)"
    using first_pattern_match_Some by blast
  obtain start k rest g where m: "m = (start, k, rest, g)" by (cases m)
  from p(1) have "always named True p"
    using company_patterns_end company_group_named ends_in_always by blast
  with p(2) m have "named g"
    using always_search [of named True p 0 "text" start k rest g] by (simp add: re_search_def)
  then obtain c cs where "g = Some (c # cs)" "\<not> isspace c"
    by (auto simp: named_def split: option.splits list.splits)
  with p(3) m show ?thesis by (simp add: strip_nonempty)
next
  case None
  with assms obtain qs where q: "re_findall False quoted_pattern text = company # qs"
    by (auto simp: extract_company_name_def split: list.splits)
  then obtain start k rest g where
    m: "search_from False quoted_pattern 0 text = Some (start, k, rest, g)"
       "company = group1 (start, k, rest, g)"
    by (auto simp: re_findall_def findall_from.simps [of False quoted_pattern 0 "text"]
          split: option.splits)
  have "ends_in (Grp (Rep (Neg [Ch (CHR 0x22)]) 1 True)) quoted_pattern"
    by (simp add: quoted_pattern_def seq_def)
  then have "always filled False quoted_pattern"
    using quoted_group_filled ends_in_always by blast
  from this m(1) have "filled g" by (rule always_search)
  with m(2) show ?thesis by (auto simp: filled_def split: option.splits list.splits)
qed

text \<open>Every pattern whose group 1 the source reads sets the group in each of its
  matches.\<close>

lemma group_set: "always (\<lambda>g. g \<noteq> None) ic (Grp r)"
  by (auto simp: always_def)

lemma rmatch_sets_group:
  assumes "p \<in> set company_patterns \<union> set industry_patterns \<union> set competitor_patterns
             \<union> {quoted_pattern}"
    and "st' \<in> set (rmatch ic p st)"
  shows "snd (snd st') \<noteq> None"
proof -
  from assms(1) have "\<exists>r. ends_in (Grp r) p"
    by (auto simp: company_patterns_def industry_patterns_def competitor_patterns_def
          quoted_pattern_def seq_def alts_def spaces1_def spaces0_def company_group_def)
  then have "always (\<lambda>g. g \<noteq> None) ic p"
    using group_set ends_in_always by blast
  with assms(2) show ?thesis unfolding always_def by blast
qed


section \<open>Tasks and no task\<close>

text \<open>
  Claim C4. For every text that contains one of the SWOT keywords (\<open>swot\<close>, \<open>strengths\<close>,
  \<open>weaknesses\<close>, \<open>opportunities\<close>, \<open>threats\<close>, looked for in the lowered text) and from
  which \<open>_extract_company_name\<close> extracts a name, the classifier yields the task of type
  \<open>swot\<close> for that company, with framework \<open>swot\<close>.
\<close>

theorem swot_keyword_with_company:
  assumes "swot_rule text" and "extract_company_name text = Some company"
  shows "classify text =
           Some [(''type'', PStr ''swot''), (''company'', PStr company),
                 (''framework'', PStr ''swot''), (''depth'', PStr (extract_depth text))]"
proof -
  from assms(2) have "company \<noteq> []"
    by (rule extract_company_name_nonempty)
  with assms show ?thesis
    by (simp add: classify_def swot_branch_def truthy_name_def opt_val_def company_task_def)
qed

theorem swot_keyword_with_company_witness:
  "swot_rule ''SWOT for Tesla'' \<and> extract_company_name ''SWOT for Tesla'' = Some ''Tesla'' \<and>
   classify ''SWOT for Tesla'' =
     Some [(''type'', PStr ''swot''), (''company'', PStr ''Tesla''),
           (''framework'', PStr ''swot''), (''depth'', PStr ''standard'')]"
proof -
  let ?t = "''SWOT for Tesla''"
  have keyword: "swot_rule ?t"
    by code_simp
  have company: "extract_company_name ?t = Some ''Tesla''"
    by code_simp
  have depth: "extract_depth ?t = ''standard''"
    by code_simp
  have "classify ?t =
     Some [(''type'', PStr ''swot''), (''company'', PStr ''Tesla''),
           (''framework'', PStr ''swot''), (''depth'', PStr (extract_depth ?t))]"
    using keyword company by (rule swot_keyword_with_company)
  then show ?thesis
    using keyword company depth by simp
qed

text \<open>
  Claim C5. The classifier returns no task exactly when either none of the keywords of
  the five rules occurs in the lowered text, or the rule that applies is one of SWOT, Five
  Forces and generic \<open>analyze\<close> (the first of the five whose keyword occurs) and no company
  name is extracted. In particular a text without any keyword yields no task.
\<close>

theorem classify_None_iff:
  "classify text = None \<longleftrightarrow>
     (\<not> swot_rule text \<and> \<not> five_forces_rule text \<and> \<not> market_entry_rule text \<and>
      \<not> competitive_rule text \<and> \<not> str_in ''analyze'' (str_lower text)) \<or>
     ((swot_rule text \<or>
       (\<not> swot_rule text \<and> five_forces_rule text) \<or>
       (\<not> swot_rule text \<and> \<not> five_forces_rule text \<and> \<not> market_entry_rule text \<and>
        \<not> competitive_rule text \<and> str_in ''analyze'' (str_lower text))) \<and>
      extract_company_name text = None)"
proof (cases "extract_company_name text")
  case None
  then show ?thesis
    by (auto simp: classify_def swot_branch_def five_forces_branch_def market_entry_branch_def
          competitive_branch_def analyze_rule_def truthy_name_def opt_val_def)
next
  case (Some company)
  then have "company \<noteq> []"
    by (rule extract_company_name_nonempty)
  with Some show ?thesis
    by (auto simp: classify_def swot_branch_def five_forces_branch_def market_entry_branch_def
          competitive_branch_def analyze_branch_def analyze_rule_def truthy_name_def opt_val_def)
qed

theorem classify_None_iff_witness:
  "classify ''good morning'' = None \<and>
   five_forces_rule ''five forces'' \<and> extract_company_name ''five forces'' = None \<and>
   classify ''five forces'' = None \<and>
   classify ''Tesla vs Ford'' \<noteq> None"
proof -
  have quiet: "\<not> swot_rule ''good morning'' \<and> \<not> five_forces_rule ''good morning'' \<and>
      \<not> market_entry_rule ''good morning'' \<and> \<not> competitive_rule ''good morning'' \<and>
      \<not> str_in ''analyze'' (str_lower ''good morning'')"
    by code_simp
  have none: "classify ''good morning'' = None"
    using classify_None_iff [of "''good morning''"] quiet by blast
  have ff: "\<not> swot_rule ''five forces''" "five_forces_rule ''five forces''"
    "extract_company_name ''five forces'' = None"
    by code_simp+
  have nameless: "classify ''five forces'' = None"
    using classify_None_iff [of "''five forces''"] ff by blast
  have vs: "competitive_rule ''Tesla vs Ford''" "\<not> swot_rule ''Tesla vs Ford''"
    "\<not> five_forces_rule ''Tesla vs Ford''"
    by code_simp+
  have task: "classify ''Tesla vs Ford'' \<noteq> None"
    using classify_None_iff [of "''Tesla vs Ford''"] vs by blast
  show ?thesis
    using none ff nameless task by blast
qed

section \<open>Truncation in \<open>_format_response\<close>\<close>

text \<open>Joining with newlines, without the recursion; the numbering of at most five
  items; the first five of more than five.\<close>

lemma join_lines_concat:
  "join_lines ls = butlast (concat (map (\<lambda>l. l @ [CHR 0x0A]) ls))"
proof (induction ls rule: join_lines.induct)
  case 1
  show ?case by simp
next
  case (2 l)
  show ?case by simp
next
  case (3 l m ls)
  then show ?case by (simp add: butlast_append)
qed

lemma str_nat_digits:
  "str_nat (Suc 0) = ''1''" "str_nat (Suc (Suc 0)) = ''2''" "str_nat (Suc (Suc (Suc 0))) = ''3''"
  "str_nat (Suc (Suc (Suc (Suc 0)))) = ''4''" "str_nat (Suc (Suc (Suc (Suc (Suc 0))))) = ''5''"
  by code_simp+

lemma enumerate1_digits:
  assumes "length xs \<le> 5"
  shows "map (\<lambda>(i, x). str_nat i @ f x) (enumerate1 xs) =
         map2 (\<lambda>i x. i @ f x) [''1'', ''2'', ''3'', ''4'', ''5''] xs"
proof -
  have lists: "[1..<2] = [1::nat]" "[1..<3] = [1::nat, 2]" "[1..<4] = [1::nat, 2, 3]"
    "[1..<5] = [1::nat, 2, 3, 4]" "[1..<6] = [1::nat, 2, 3, 4, 5]"
    by (simp_all add: upt_rec)
  from assms have "length xs = 0 \<or> length xs = 1 \<or> length xs = 2 \<or> length xs = 3 \<or>
      length xs = 4 \<or> length xs = 5"
    by arith
  then consider "xs = []" | a where "xs = [a]" | a b where "xs = [a, b]"
    | a b c where "xs = [a, b, c]" | a b c d where "xs = [a, b, c, d]"
    | a b c d e where "xs = [a, b, c, d, e]"
    by (auto simp: numeral_eq_Suc length_Suc_conv)
  then show ?thesis
    by cases (simp_all add: enumerate1_def lists str_nat_digits)
qed

lemma take_five:
  assumes "5 < length xs"
  shows "take 5 xs = [xs ! 0, xs ! 1, xs ! 2, xs ! 3, xs ! 4]"
proof -
  from assms have "Suc (Suc (Suc (Suc (Suc 0)))) \<le> length xs"
    by simp
  then obtain a b c d e rest where "xs = a # b # c # d # e # rest"
    by (auto simp: Suc_le_length_iff)
  then show ?thesis by simp
qed


lemma category_lines_opt:
  "map_of analysis key = map_option PList items \<Longrightarrow>
   category_lines repr analysis key heading =
     Inr (case items of None \<Rightarrow> []
          | Some xs \<Rightarrow> heading # map (\<lambda>item. ''- '' @ str_of repr item) (take 5 xs) @ [[]])"
  by (cases items) (simp_all add: category_lines_def has_key_def dict_get_default_def)

lemma recommendation_lines_list:
  assumes "dict_get_default result ''recommendations'' (PList []) = PList recs"
  shows "recommendation_lines repr result =
     Inr (if recs = [] then []
          else ''## Strategic Recommendations'' #
           map2 (\<lambda>i rec. i @ ''. '' @ str_of repr rec) [''1'', ''2'', ''3'', ''4'', ''5''] (take 5 recs))"
proof -
  have "map (\<lambda>(i, rec). str_nat i @ ''. '' @ str_of repr rec) (enumerate1 (take 5 recs)) =
        map2 (\<lambda>i rec. i @ ''. '' @ str_of repr rec) [''1'', ''2'', ''3'', ''4'', ''5''] (take 5 recs)"
    by (rule enumerate1_digits) simp
  with assms show ?thesis
    by (simp add: recommendation_lines_def)
qed

lemma format_response_parts:
  assumes "result \<noteq> []" and "header_lines upper repr result task = Inr header"
    and "swot_lines repr result = Inr swot" and "recommendation_lines repr result = Inr recl"
  shows "format_response upper repr today (PDict result) task =
      Inr (butlast (concat (map (\<lambda>l. l @ [CHR 0x0A])
        (header @ [''**Date:** '' @ today @ [CHR 0x0A]] @ swot @ recl))))"
  using assms by (simp add: format_response_def response_lines_def join_lines_concat)

lemma numbered_five:
  assumes "5 < length recs"
  shows "''## Strategic Recommendations'' #
           map2 (\<lambda>i rec. i @ ''. '' @ str_of repr rec) [''1'', ''2'', ''3'', ''4'', ''5''] (take 5 recs) =
         [''## Strategic Recommendations'',
          ''1. '' @ str_of repr (recs ! 0), ''2. '' @ str_of repr (recs ! 1),
          ''3. '' @ str_of repr (recs ! 2), ''4. '' @ str_of repr (recs ! 3),
          ''5. '' @ str_of repr (recs ! 4)]"
  unfolding take_five [OF assms] by simp

text \<open>
  Claim C7. The text \<open>_format_response\<close> returns is given in full, as its lines each
  followed by a newline, less the last newline. For a SWOT result whose categories are
  lists, each category that is present is rendered as its heading, one line for each of
  its first five items and an empty line, and a non-empty list of recommendations as its
  heading and one numbered line for each of its first five items. The same holds of the
  recommendations of any result whose other parts are rendered without error. And with
  more than five recommendations the text ends with the five lines numbered 1 to 5, for
  the first five of them, and nothing after.
\<close>

theorem format_response_truncates:
  "(header_lines upper repr result task = Inr header \<and>
    dict_get result ''framework'' = PStr ''swot'' \<and>
    dict_get_default result ''analysis'' (PDict []) = PDict analysis \<and>
    map_of analysis ''strengths'' = map_option PList ss \<and>
    map_of analysis ''weaknesses'' = map_option PList ws \<and>
    map_of analysis ''opportunities'' = map_option PList os \<and>
    map_of analysis ''threats'' = map_option PList ts \<and>
    dict_get_default result ''recommendations'' (PList []) = PList recs \<longrightarrow>
    format_response upper repr today (PDict result) task =
      Inr (butlast (concat (map (\<lambda>l. l @ [CHR 0x0A])
        (header @ [''**Date:** '' @ today @ [CHR 0x0A]] @
         (case ss of None \<Rightarrow> [] | Some xs \<Rightarrow>
            ''## Strengths'' # map (\<lambda>item. ''- '' @ str_of repr item) (take 5 xs) @ [[]]) @
         (case ws of None \<Rightarrow> [] | Some xs \<Rightarrow>
            ''## Weaknesses'' # map (\<lambda>item. ''- '' @ str_of repr item) (take 5 xs) @ [[]]) @
         (case os of None \<Rightarrow> [] | Some xs \<Rightarrow>
            ''## Opportunities'' # map (\<lambda>item. ''- '' @ str_of repr item) (take 5 xs) @ [[]]) @
         (case ts of None \<Rightarrow> [] | Some xs \<Rightarrow>
            ''## Threats'' # map (\<lambda>item. ''- '' @ str_of repr item) (take 5 xs) @ [[]]) @
         (if recs = [] then []
          else ''## Strategic Recommendations'' #
           map2 (\<lambda>i rec. i @ ''. '' @ str_of repr rec) [''1'', ''2'', ''3'', ''4'', ''5''] (take 5 recs))))))) \<and>
   (header_lines upper repr result task = Inr header \<and>
    swot_lines repr result = Inr swot \<and>
    dict_get_default result ''recommendations'' (PList []) = PList recs \<and> recs \<noteq> [] \<longrightarrow>
    format_response upper repr today (PDict result) task =
      Inr (butlast (concat (map (\<lambda>l. l @ [CHR 0x0A])
        (header @ [''**Date:** '' @ today @ [CHR 0x0A]] @ swot @
         ''## Strategic Recommendations'' #
           map2 (\<lambda>i rec. i @ ''. '' @ str_of repr rec) [''1'', ''2'', ''3'', ''4'', ''5''] (take 5 recs)))))) \<and>
   (header_lines upper repr result task = Inr header \<and>
    swot_lines repr result = Inr swot \<and>
    dict_get_default result ''recommendations'' (PList []) = PList recs \<and> 5 < length recs \<longrightarrow>
    format_response upper repr today (PDict result) task =
      Inr (butlast (concat (map (\<lambda>l. l @ [CHR 0x0A])
        (header @ [''**Date:** '' @ today @ [CHR 0x0A]] @ swot @
         [''## Strategic Recommendations'',
          ''1. '' @ str_of repr (recs ! 0), ''2. '' @ str_of repr (recs ! 1),
          ''3. '' @ str_of repr (recs ! 2), ''4. '' @ str_of repr (recs ! 3),
          ''5. '' @ str_of repr (recs ! 4)])))))"
proof (intro conjI impI)
  assume a: "header_lines upper repr result task = Inr header \<and>
    dict_get result ''framework'' = PStr ''swot'' \<and>
    dict_get_default result ''analysis'' (PDict []) = PDict analysis \<and>
    map_of analysis ''strengths'' = map_option PList ss \<and>
    map_of analysis ''weaknesses'' = map_option PList ws \<and>
    map_of analysis ''opportunities'' = map_option PList os \<and>
    map_of analysis ''threats'' = map_option PList ts \<and>
    dict_get_default result ''recommendations'' (PList []) = PList recs"
  then have "result \<noteq> []"
    by (auto simp: dict_get_def dict_get_default_def)
  moreover have "swot_lines repr result =
     Inr ((case ss of None \<Rightarrow> [] | Some xs \<Rightarrow>
            ''## Strengths'' # map (\<lambda>item. ''- '' @ str_of repr item) (take 5 xs) @ [[]]) @
         (case ws of None \<Rightarrow> [] | Some xs \<Rightarrow>
            ''## Weaknesses'' # map (\<lambda>item. ''- '' @ str_of repr item) (take 5 xs) @ [[]]) @
         (case os of None \<Rightarrow> [] | Some xs \<Rightarrow>
            ''## Opportunities'' # map (\<lambda>item. ''- '' @ str_of repr item) (take 5 xs) @ [[]]) @
         (case ts of None \<Rightarrow> [] | Some xs \<Rightarrow>
            ''## Threats'' # map (\<lambda>item. ''- '' @ str_of repr item) (take 5 xs) @ [[]]))"
    using a by (simp add: swot_lines_def category_lines_opt)
  moreover have "recommendation_lines repr result =
     Inr (if recs = [] then []
          else ''## Strategic Recommendations'' #
           map2 (\<lambda>i rec. i @ ''. '' @ str_of repr rec) [''1'', ''2'', ''3'', ''4'', ''5''] (take 5 recs))"
    using a by (simp add: recommendation_lines_list)
  ultimately show "format_response upper repr today (PDict result) task =
      Inr (butlast (concat (map (\<lambda>l. l @ [CHR 0x0A])
        (header @ [''**Date:** '' @ today @ [CHR 0x0A]] @
         (case ss of None \<Rightarrow> [] | Some xs \<Rightarrow>
            ''## Strengths'' # map (\<lambda>item. ''- '' @ str_of repr item) (take 5 xs) @ [[]]) @
         (case ws of None \<Rightarrow> [] | Some xs \<Rightarrow>
            ''## Weaknesses'' # map (\<lambda>item. ''- '' @ str_of repr item) (take 5 xs) @ [[]]) @
         (case os of None \<Rightarrow> [] | Some xs \<Rightarrow>
            ''## Opportunities'' # map (\<lambda>item. ''- '' @ str_of repr item) (take 5 xs) @ [[]]) @
         (case ts of None \<Rightarrow> [] | Some xs \<Rightarrow>
            ''## Threats'' # map (\<lambda>item. ''- '' @ str_of repr item) (take 5 xs) @ [[]]) @
         (if recs = [] then []
          else ''## Strategic Recommendations'' #
           map2 (\<lambda>i rec. i @ ''. '' @ str_of repr rec) [''1'', ''2'', ''3'', ''4'', ''5''] (take 5 recs))))))"
    using a format_response_parts by simp
next
  assume a: "header_lines upper repr result task = Inr header \<and>
    swot_lines repr result = Inr swot \<and>
    dict_get_default result ''recommendations'' (PList []) = PList recs \<and> recs \<noteq> []"
  then have "result \<noteq> []"
    by (auto simp: dict_get_default_def)
  moreover have "recommendation_lines repr result =
     Inr (''## Strategic Recommendations'' #
           map2 (\<lambda>i rec. i @ ''. '' @ str_of repr rec) [''1'', ''2'', ''3'', ''4'', ''5''] (take 5 recs))"
    using a by (simp add: recommendation_lines_list)
  ultimately show "format_response upper repr today (PDict result) task =
      Inr (butlast (concat (map (\<lambda>l. l @ [CHR 0x0A])
        (header @ [''**Date:** '' @ today @ [CHR 0x0A]] @ swot @
         ''## Strategic Recommendations'' #
           map2 (\<lambda>i rec. i @ ''. '' @ str_of repr rec) [''1'', ''2'', ''3'', ''4'', ''5''] (take 5 recs)))))"
    using a format_response_parts by simp
next
  assume a: "header_lines upper repr result task = Inr header \<and>
    swot_lines repr result = Inr swot \<and>
    dict_get_default result ''recommendations'' (PList []) = PList recs \<and> 5 < length recs"
  then have "result \<noteq> []"
    by (auto simp: dict_get_default_def)
  moreover from a have "recs \<noteq> []"
    by auto
  with a have "recommendation_lines repr result =
     Inr (''## Strategic Recommendations'' #
           map2 (\<lambda>i rec. i @ ''. '' @ str_of repr rec) [''1'', ''2'', ''3'', ''4'', ''5''] (take 5 recs))"
    by (simp add: recommendation_lines_list)
  ultimately have "format_response upper repr today (PDict result) task =
      Inr (butlast (concat (map (\<lambda>l. l @ [CHR 0x0A])
        (header @ [''**Date:** '' @ today @ [CHR 0x0A]] @ swot @
         ''## Strategic Recommendations'' #
           map2 (\<lambda>i rec. i @ ''. '' @ str_of repr rec) [''1'', ''2'', ''3'', ''4'', ''5''] (take 5 recs)))))"
    using a format_response_parts by simp
  moreover from a have "5 < length recs"
    by simp
  ultimately show "format_response upper repr today (PDict result) task =
      Inr (butlast (concat (map (\<lambda>l. l @ [CHR 0x0A])
        (header @ [''**Date:** '' @ today @ [CHR 0x0A]] @ swot @
         [''## Strategic Recommendations'',
          ''1. '' @ str_of repr (recs ! 0), ''2. '' @ str_of repr (recs ! 1),
          ''3. '' @ str_of repr (recs ! 2), ''4. '' @ str_of repr (recs ! 3),
          ''5. '' @ str_of repr (recs ! 4)]))))"
    by (simp only: numbered_five)
qed


theorem format_response_truncates_witness:
  "format_response (map upper_char) (\<lambda>v. ''?'') ''2024-05-01''
     (PDict [(''framework'', PStr ''swot''),
             (''analysis'', PDict
                [(''strengths'',
                    PList [PStr ''a'', PStr ''b'', PStr ''c'', PStr ''d'', PStr ''e'', PStr ''f'']),
                 (''weaknesses'', PList [PStr ''x'', PStr ''y''])]),
             (''recommendations'',
                PList [PStr ''p'', PStr ''q'', PStr ''r'', PStr ''s'', PStr ''t'', PStr ''u''])])
     [(''type'', PStr ''swot''), (''company'', PStr ''Tesla''), (''framework'', PStr ''swot''),
      (''depth'', PStr ''standard'')] =
   Inr (''# Strategic Analysis: Tesla'' @ [CHR 0x0A] @
        ''**Framework:** SWOT'' @ [CHR 0x0A] @
        ''**Date:** 2024-05-01'' @ [CHR 0x0A, CHR 0x0A] @
        ''## Strengths'' @ [CHR 0x0A] @
        ''- a'' @ [CHR 0x0A] @ ''- b'' @ [CHR 0x0A] @ ''- c'' @ [CHR 0x0A] @
        ''- d'' @ [CHR 0x0A] @ ''- e'' @ [CHR 0x0A, CHR 0x0A] @
        ''## Weaknesses'' @ [CHR 0x0A] @
        ''- x'' @ [CHR 0x0A] @ ''- y'' @ [CHR 0x0A, CHR 0x0A] @
        ''## Strategic Recommendations'' @ [CHR 0x0A] @
        ''1. p'' @ [CHR 0x0A] @ ''2. q'' @ [CHR 0x0A] @ ''3. r'' @ [CHR 0x0A] @
        ''4. s'' @ [CHR 0x0A] @ ''5. t'')"
proof -
  let ?ss = "[PStr ''a'', PStr ''b'', PStr ''c'', PStr ''d'', PStr ''e'', PStr ''f'']"
  let ?ws = "[PStr ''x'', PStr ''y'']"
  let ?recs = "[PStr ''p'', PStr ''q'', PStr ''r'', PStr ''s'', PStr ''t'', PStr ''u'']"
  let ?analysis = "[(''strengths'', PList ?ss), (''weaknesses'', PList ?ws)]"
  let ?result = "[(''framework'', PStr ''swot''), (''analysis'', PDict ?analysis),
                  (''recommendations'', PList ?recs)]"
  let ?task = "[(''type'', PStr ''swot''), (''company'', PStr ''Tesla''),
                (''framework'', PStr ''swot''), (''depth'', PStr ''standard'')]"
  let ?header = "[''# Strategic Analysis: Tesla'', ''**Framework:** SWOT'']"
  have shape: "header_lines (map upper_char) (\<lambda>v. ''?'') ?result ?task = Inr ?header \<and>
    dict_get ?result ''framework'' = PStr ''swot'' \<and>
    dict_get_default ?result ''analysis'' (PDict []) = PDict ?analysis \<and>
    map_of ?analysis ''strengths'' = map_option PList (Some ?ss) \<and>
    map_of ?analysis ''weaknesses'' = map_option PList (Some ?ws) \<and>
    map_of ?analysis ''opportunities'' = map_option PList None \<and>
    map_of ?analysis ''threats'' = map_option PList None \<and>
    dict_get_default ?result ''recommendations'' (PList []) = PList ?recs"
    by code_simp
  note rendered = format_response_truncates [where upper = "map upper_char"
      and repr = "\<lambda>v. ''?''" and today = "''2024-05-01''" and result = ?result
      and task = ?task and header = ?header and analysis = ?analysis
      and ss = "Some ?ss" and ws = "Some ?ws" and os = None and ts = None and recs = ?recs,
      THEN conjunct1, THEN mp, OF shape]
  show ?thesis
    unfolding rendered by (simp add: str_of_def)
qed

end
